theory Spec2Isabelle
  imports Main "HOL-Library.Word" "HOL-Library.Sublist" "HOL-Library.Multiset"
begin

section \<open>The DASH manifest generator of gtuber\<close>

text \<open>
  A shallow embedding of \<^verbatim>\<open>src/gtuber/gtuber-manifest-generator.c\<close>. The \<^verbatim>\<open>GString\<close>
  that the emitting functions append to is passed in and returned; a
  \<^verbatim>\<open>g_ptr_array_foreach\<close> is a left fold; \<^verbatim>\<open>guint\<close> is a 32-bit word and
  \<^verbatim>\<open>guint64\<close> is a 64-bit word; a nullable C string or pointer is an
  \<open>option\<close>.
\<close>

subsection \<open>Data model\<close>

type_synonym guint = "32 word"
type_synonym guint64 = "64 word"

text \<open>A \<^verbatim>\<open>gsize\<close> here is the length of a buffer in memory, which the address space
  bounds: a natural number.\<close>
type_synonym gsize = nat

text \<open>An opaque \<^verbatim>\<open>gpointer\<close>: \<open>None\<close> is \<^verbatim>\<open>NULL\<close>, \<open>Some a\<close> the address \<open>a\<close>.\<close>
type_synonym gpointer = "nat option"

text \<open>A \<^verbatim>\<open>GDestroyNotify\<close> routine, named by its address.\<close>
type_synonym GDestroyNotify = nat

text \<open>Modelled from the spec: the enumeration \<^verbatim>\<open>GtuberStreamMimeType\<close> of
  \<^verbatim>\<open>gtuber-enums.h\<close>, the container+kind tag with its four recognized values.\<close>
datatype GtuberStreamMimeType =
    GTUBER_STREAM_MIME_TYPE_UNKNOWN
  | GTUBER_STREAM_MIME_TYPE_VIDEO_MP4
  | GTUBER_STREAM_MIME_TYPE_VIDEO_WEBM
  | GTUBER_STREAM_MIME_TYPE_AUDIO_MP4
  | GTUBER_STREAM_MIME_TYPE_AUDIO_WEBM

datatype DashCodec =
    DASH_CODEC_UNKNOWN
  | DASH_CODEC_AVC
  | DASH_CODEC_HEVC
  | DASH_CODEC_VP9
  | DASH_CODEC_AV1
  | DASH_CODEC_MP4A
  | DASH_CODEC_OPUS

text \<open>Modelled from the spec: the stream object of \<^verbatim>\<open>gtuber-stream.h\<close> and
  \<^verbatim>\<open>gtuber-adaptive-stream.h\<close>, one field for each getter the generator calls. The two
  codec strings and the two byte ranges are optional, the numbers are \<^verbatim>\<open>guint\<close>
  (ranges \<^verbatim>\<open>guint64\<close>) with 0 for unset.\<close>
record GtuberAdaptiveStream =
  itag :: guint
  mime_type :: GtuberStreamMimeType
  video_codec :: "string option"
  audio_codec :: "string option"
  width :: guint
  height :: guint
  fps :: guint
  bitrate :: guint
  uri :: string
  init_range :: "(guint64 \<times> guint64) option"
  index_range :: "(guint64 \<times> guint64) option"

text \<open>Modelled from the spec: the media info object of \<^verbatim>\<open>gtuber-media-info.h\<close>, its
  duration in seconds (read into a \<^verbatim>\<open>guint\<close>) and its ordered adaptive streams.\<close>
record GtuberMediaInfo =
  duration :: guint
  info_adaptive_streams :: "GtuberAdaptiveStream list"

type_synonym GtuberAdaptiveStreamFilter = "GtuberAdaptiveStream \<Rightarrow> gpointer \<Rightarrow> bool"

record GtuberManifestGenerator =
  pretty :: bool
  indent :: guint
  media_info :: "GtuberMediaInfo option"
  filter_func :: "GtuberAdaptiveStreamFilter option"
  filter_data :: gpointer
  filter_destroy :: "GDestroyNotify option"

text \<open>The instance is zero-filled when allocated, so \<^verbatim>\<open>filter_data\<close> starts as
  \<^verbatim>\<open>NULL\<close>.\<close>
definition gtuber_manifest_generator_init :: GtuberManifestGenerator where
  "gtuber_manifest_generator_init =
     \<lparr>pretty = False, indent = 2, media_info = None,
      filter_func = None, filter_data = None, filter_destroy = None\<rparr>"

record DashAdaptationData =
  ad_mime_type :: GtuberStreamMimeType
  dash_codec :: DashCodec
  max_width :: guint
  max_height :: guint
  max_fps :: guint
  adaptive_streams :: "GtuberAdaptiveStream list"

subsection \<open>Formatting numbers\<close>

text \<open>What \<^verbatim>\<open>printf\<close> writes for \<^verbatim>\<open>%u\<close> and \<^verbatim>\<open>%lu\<close> (\<open>show_nat\<close> of the unsigned
  value) and for \<^verbatim>\<open>%i\<close> (\<open>show_int\<close> of the value read as a signed \<^verbatim>\<open>int\<close>).\<close>

fun show_nat :: "nat \<Rightarrow> string" where
  "show_nat n = (if n < 10 then [''0123456789'' ! n]
                 else show_nat (n div 10) @ [''0123456789'' ! (n mod 10)])"

declare show_nat.simps [simp del]

definition show_int :: "int \<Rightarrow> string" where
  "show_int i = (if i < 0 then ''-'' @ show_nat (nat (- i)) else show_nat (nat i))"

subsection \<open>Codec classes\<close>

text \<open>\<^verbatim>\<open>g_str_has_prefix (codec, p)\<close> is \<open>prefix p codec\<close>.\<close>

definition get_dash_video_codec :: "string option \<Rightarrow> DashCodec" where
  "get_dash_video_codec codec =
     (case codec of
        None \<Rightarrow> DASH_CODEC_UNKNOWN
      | Some c \<Rightarrow>
          if prefix ''avc'' c then DASH_CODEC_AVC
          else if prefix ''vp9'' c then DASH_CODEC_VP9
          else if prefix ''hev'' c then DASH_CODEC_HEVC
          else if prefix ''av01'' c then DASH_CODEC_AV1
          else DASH_CODEC_UNKNOWN)"

definition get_dash_audio_codec :: "string option \<Rightarrow> DashCodec" where
  "get_dash_audio_codec codec =
     (case codec of
        None \<Rightarrow> DASH_CODEC_UNKNOWN
      | Some c \<Rightarrow>
          if prefix ''mp4a'' c then DASH_CODEC_MP4A
          else if prefix ''opus'' c then DASH_CODEC_OPUS
          else DASH_CODEC_UNKNOWN)"

subsection \<open>Pixel aspect ratio\<close>

function get_gcd :: "guint \<Rightarrow> guint \<Rightarrow> guint" where
  "get_gcd w h = (if h > 0 then get_gcd h (w mod h) else w)"
  by pat_completeness auto
termination
  by (relation "measure (\<lambda>(w, h). unat h)")
     (auto simp: unat_mod word_greater_zero_iff unat_gt_0)

declare get_gcd.simps [simp del]

text \<open>The two quotients are \<^verbatim>\<open>guint\<close> and are printed with \<^verbatim>\<open>%i\<close>.\<close>
definition obtain_par_from_res :: "guint \<Rightarrow> guint \<Rightarrow> string" where
  "obtain_par_from_res w h =
     (if w = 0 \<or> h = 0 then ''1:1''
      else let gcd = get_gcd w h;
               w = w div gcd;
               h = h div gcd
           in show_int (sint w) @ '':'' @ show_int (sint h))"

subsection \<open>Grouping streams into adaptations\<close>

definition dash_adaptation_data_new :: "GtuberStreamMimeType \<Rightarrow> DashCodec \<Rightarrow> DashAdaptationData" where
  "dash_adaptation_data_new m c =
     \<lparr>ad_mime_type = m, dash_codec = c, max_width = 0, max_height = 0, max_fps = 0,
      adaptive_streams = []\<rparr>"

text \<open>The search loop of \<^verbatim>\<open>get_adaptation_data_for_stream\<close>: the index of the first
  adaptation with this mime type and codec class.\<close>
fun find_adaptation :: "DashAdaptationData list \<Rightarrow> GtuberStreamMimeType \<Rightarrow> DashCodec \<Rightarrow> nat option" where
  "find_adaptation [] m c = None"
| "find_adaptation (d # ds) m c =
     (if ad_mime_type d = m \<and> dash_codec d = c then Some 0
      else map_option Suc (find_adaptation ds m c))"

text \<open>The \<^verbatim>\<open>switch\<close> on the mime type: the codec string that is looked at and its
  class.\<close>
definition stream_codec :: "GtuberAdaptiveStream \<Rightarrow> string option \<times> DashCodec" where
  "stream_codec stream =
     (case mime_type stream of
        GTUBER_STREAM_MIME_TYPE_VIDEO_MP4 \<Rightarrow>
          (video_codec stream, get_dash_video_codec (video_codec stream))
      | GTUBER_STREAM_MIME_TYPE_VIDEO_WEBM \<Rightarrow>
          (video_codec stream, get_dash_video_codec (video_codec stream))
      | GTUBER_STREAM_MIME_TYPE_AUDIO_MP4 \<Rightarrow>
          (audio_codec stream, get_dash_audio_codec (audio_codec stream))
      | GTUBER_STREAM_MIME_TYPE_AUDIO_WEBM \<Rightarrow>
          (audio_codec stream, get_dash_audio_codec (audio_codec stream))
      | GTUBER_STREAM_MIME_TYPE_UNKNOWN \<Rightarrow> (None, DASH_CODEC_UNKNOWN))"

text \<open>Returns the array, grown by a new adaptation when none matched, and the index of
  the adaptation for the stream (\<open>None\<close> for the \<^verbatim>\<open>NULL\<close> result).\<close>
definition get_adaptation_data_for_stream ::
  "GtuberAdaptiveStream \<Rightarrow> DashAdaptationData list \<Rightarrow> nat option \<times> DashAdaptationData list" where
  "get_adaptation_data_for_stream stream adaptations =
     (let (codec, dcodec) = stream_codec stream
      in if codec \<noteq> None \<and> dcodec \<noteq> DASH_CODEC_UNKNOWN then
           (case find_adaptation adaptations (mime_type stream) dcodec of
              Some i \<Rightarrow> (Some i, adaptations)
            | None \<Rightarrow>
                (Some (length adaptations),
                 adaptations @ [dash_adaptation_data_new (mime_type stream) dcodec]))
         else (None, adaptations))"

text \<open>The body of the \<^verbatim>\<open>if (data)\<close> block of \<^verbatim>\<open>_sort_streams_cb\<close>.\<close>
definition add_stream_to_adaptation :: "GtuberAdaptiveStream \<Rightarrow> DashAdaptationData \<Rightarrow> DashAdaptationData" where
  "add_stream_to_adaptation stream d =
     d\<lparr>max_width := max (max_width d) (width stream),
       max_height := max (max_height d) (height stream),
       max_fps := max (max_fps d) (fps stream),
       adaptive_streams := adaptive_streams d @ [stream]\<rparr>"

definition sort_streams_cb ::
  "GtuberManifestGenerator \<Rightarrow> DashAdaptationData list \<Rightarrow> GtuberAdaptiveStream \<Rightarrow> DashAdaptationData list" where
  "sort_streams_cb self adaptations astream =
     (let add = (case filter_func self of
                   None \<Rightarrow> True
                 | Some f \<Rightarrow> f astream (filter_data self))
      in if add then
           (case get_adaptation_data_for_stream astream adaptations of
              (Some i, adaptations') \<Rightarrow>
                adaptations'[i := add_stream_to_adaptation astream (adaptations' ! i)]
            | (None, adaptations') \<Rightarrow> adaptations')
         else adaptations)"

text \<open>The first half of \<^verbatim>\<open>dump_data\<close>: the fold of \<^verbatim>\<open>_sort_streams_cb\<close> over the
  streams, from an empty array.\<close>
definition sort_streams :: "GtuberManifestGenerator \<Rightarrow> GtuberAdaptiveStream list \<Rightarrow> DashAdaptationData list" where
  "sort_streams self astreams = foldl (sort_streams_cb self) [] astreams"

subsection \<open>Writing lines and attributes\<close>

text \<open>The product \<^verbatim>\<open>depth * self->indent\<close> is a \<^verbatim>\<open>guint\<close>: it wraps at \<open>2 ^ 32\<close>. The
  loop \<^verbatim>\<open>while (indent--)\<close> appends one space for each unit of it.\<close>
definition add_line_no_newline :: "GtuberManifestGenerator \<Rightarrow> string \<Rightarrow> guint \<Rightarrow> string \<Rightarrow> string" where
  "add_line_no_newline self string depth line =
     (let n = depth * indent self;
          string = (if pretty self then string @ replicate (unat n) CHR '' '' else string)
      in string @ line)"

definition finish_line :: "GtuberManifestGenerator \<Rightarrow> string \<Rightarrow> string option \<Rightarrow> string" where
  "finish_line self string sfx =
     string @ (case sfx of Some s \<Rightarrow> s | None \<Rightarrow> [])
            @ (if pretty self then [CHR 0x0A] else [])"

definition add_line :: "GtuberManifestGenerator \<Rightarrow> string \<Rightarrow> guint \<Rightarrow> string \<Rightarrow> string" where
  "add_line self string depth line =
     finish_line self (add_line_no_newline self string depth line) None"

definition add_option_string :: "string \<Rightarrow> string \<Rightarrow> string \<Rightarrow> string" where
  \<open>add_option_string string key val = string @ '' '' @ key @ ''="'' @ val @ ''"''\<close>

definition add_option_int :: "string \<Rightarrow> string \<Rightarrow> guint64 \<Rightarrow> string" where
  \<open>add_option_int string key val =
     string @ '' '' @ key @ ''="'' @ show_nat (unat val) @ ''"''\<close>

definition add_option_range :: "string \<Rightarrow> string \<Rightarrow> guint64 \<Rightarrow> guint64 \<Rightarrow> string" where
  \<open>add_option_range string key start finish =
     string @ '' '' @ key @ ''="'' @ show_nat (unat start) @ ''-'' @ show_nat (unat finish) @ ''"''\<close>

definition add_option_boolean :: "string \<Rightarrow> string \<Rightarrow> bool \<Rightarrow> string" where
  \<open>add_option_boolean string key val =
     (let boolean_str = (if val then ''true'' else ''false'')
      in string @ '' '' @ key @ ''="'' @ boolean_str @ ''"'')\<close>

definition parse_content_and_mime_type :: "GtuberStreamMimeType \<Rightarrow> string option \<times> string option" where
  "parse_content_and_mime_type m =
     (let content_str =
            (case m of
               GTUBER_STREAM_MIME_TYPE_VIDEO_MP4 \<Rightarrow> Some ''video''
             | GTUBER_STREAM_MIME_TYPE_VIDEO_WEBM \<Rightarrow> Some ''video''
             | GTUBER_STREAM_MIME_TYPE_AUDIO_MP4 \<Rightarrow> Some ''audio''
             | GTUBER_STREAM_MIME_TYPE_AUDIO_WEBM \<Rightarrow> Some ''audio''
             | GTUBER_STREAM_MIME_TYPE_UNKNOWN \<Rightarrow> None);
          mime_str =
            (case m of
               GTUBER_STREAM_MIME_TYPE_VIDEO_MP4 \<Rightarrow> Some (the content_str @ ''/'' @ ''mp4'')
             | GTUBER_STREAM_MIME_TYPE_AUDIO_MP4 \<Rightarrow> Some (the content_str @ ''/'' @ ''mp4'')
             | GTUBER_STREAM_MIME_TYPE_VIDEO_WEBM \<Rightarrow> Some (the content_str @ ''/'' @ ''webm'')
             | GTUBER_STREAM_MIME_TYPE_AUDIO_WEBM \<Rightarrow> Some (the content_str @ ''/'' @ ''webm'')
             | GTUBER_STREAM_MIME_TYPE_UNKNOWN \<Rightarrow> None)
      in (content_str, mime_str))"

subsection \<open>Emitting the document\<close>

text \<open>Modelled from the spec: \<^verbatim>\<open>gtuber_stream_get_codecs\<close> of \<^verbatim>\<open>gtuber-stream.c\<close> hands
  out both codec strings and is true when at least one of them is present.\<close>
definition gtuber_stream_get_codecs :: "GtuberAdaptiveStream \<Rightarrow> bool \<times> string option \<times> string option" where
  "gtuber_stream_get_codecs stream =
     (video_codec stream \<noteq> None \<or> audio_codec stream \<noteq> None,
      video_codec stream, audio_codec stream)"

definition add_representation_cb :: "GtuberManifestGenerator \<Rightarrow> string \<Rightarrow> GtuberAdaptiveStream \<Rightarrow> string" where
  "add_representation_cb gen string astream =
     (let w = width astream;
          h = height astream;
          f = fps astream;
          string = add_line_no_newline gen string 3 ''<Representation'';
          string = add_option_int string ''id'' (ucast (itag astream));
          string =
            (case gtuber_stream_get_codecs astream of
               (True, Some vcodec, Some acodec) \<Rightarrow>
                 add_option_string string ''codecs'' (vcodec @ '', '' @ acodec)
             | (True, Some vcodec, None) \<Rightarrow> add_option_string string ''codecs'' vcodec
             | (True, None, Some acodec) \<Rightarrow> add_option_string string ''codecs'' acodec
             | (True, None, None) \<Rightarrow> add_option_string string ''codecs'' ''(null)''
             | (False, _, _) \<Rightarrow> string);
          string = add_option_int string ''bandwidth'' (ucast (bitrate astream));
          string = (if w \<noteq> 0 then add_option_int string ''width'' (ucast w) else string);
          string = (if h \<noteq> 0 then add_option_int string ''height'' (ucast h) else string);
          string = (if w \<noteq> 0 \<and> h \<noteq> 0 then add_option_string string ''sar'' ''1:1'' else string);
          string = (if f \<noteq> 0 then add_option_int string ''frameRate'' (ucast f) else string);
          string = finish_line gen string (Some ''>'');
          string = add_line_no_newline gen string 4 ''<BaseURL>'';
          string = add_line_no_newline gen string 0 (uri astream);
          string = finish_line gen string (Some ''</BaseURL>'');
          string = add_line_no_newline gen string 4 ''<SegmentBase'';
          string = (case index_range astream of
                      Some (start, finish) \<Rightarrow> add_option_range string ''indexRange'' start finish
                    | None \<Rightarrow> string);
          string = add_option_boolean string ''indexRangeExact'' True;
          string = finish_line gen string (Some ''>'');
          string = add_line_no_newline gen string 5 ''<Initialization'';
          string = (case init_range astream of
                      Some (start, finish) \<Rightarrow> add_option_range string ''range'' start finish
                    | None \<Rightarrow> string);
          string = finish_line gen string (Some ''/>'');
          string = add_line gen string 4 ''</SegmentBase>''
      in add_line gen string 3 ''</Representation>'')"

definition add_adaptation_set_cb :: "GtuberManifestGenerator \<Rightarrow> string \<Rightarrow> DashAdaptationData \<Rightarrow> string" where
  "add_adaptation_set_cb gen string adaptation =
     (case parse_content_and_mime_type (ad_mime_type adaptation) of
        (Some content_str, Some mime_str) \<Rightarrow>
          (let string = add_line_no_newline gen string 2 ''<AdaptationSet'';
               string = add_option_string string ''contentType'' content_str;
               string = add_option_string string ''mimeType'' mime_str;
               string = add_option_boolean string ''subsegmentAlignment'' True;
               string = add_option_int string ''subsegmentStartsWithSAP'' 1;
               string =
                 (if content_str = ''video'' then
                    (let string = add_option_int string ''maxWidth'' (ucast (max_width adaptation));
                         string = add_option_int string ''maxHeight'' (ucast (max_height adaptation));
                         par = obtain_par_from_res (max_width adaptation) (max_height adaptation);
                         string = add_option_string string ''par'' par
                     in add_option_int string ''maxFrameRate'' (ucast (max_fps adaptation)))
                  else string);
               string = finish_line gen string (Some ''>'');
               string = foldl (add_representation_cb gen) string (adaptive_streams adaptation)
           in add_line gen string 2 ''</AdaptationSet>'')
      | _ \<Rightarrow> string)"

definition obtain_time_as_pts :: "guint \<Rightarrow> string" where
  "obtain_time_as_pts v = ''PT'' @ show_nat (unat v) @ ''S''"

text \<open>\<^verbatim>\<open>dump_data\<close>, with \<^verbatim>\<open>self->media_info\<close> (which the caller has checked) as the
  argument \<open>info\<close>. \<^verbatim>\<open>MIN (2, duration)\<close> compares as \<^verbatim>\<open>guint\<close>.\<close>
definition dump_data :: "GtuberManifestGenerator \<Rightarrow> GtuberMediaInfo \<Rightarrow> string \<Rightarrow> string" where
  "dump_data self info string =
     (let adaptations = sort_streams self (info_adaptive_streams info)
      in if adaptations = [] then string
         else
           (let string = add_line_no_newline self string 0 ''<?xml'';
                string = add_option_string string ''version'' ''1.0'';
                string = add_option_string string ''encoding'' ''UTF-8'';
                string = finish_line self string (Some ''?>'');
                dur = duration info;
                dur_pts = obtain_time_as_pts dur;
                buf_time = (if 2 < dur then 2 else dur);
                buf_pts = obtain_time_as_pts buf_time;
                string = add_line_no_newline self string 0 ''<MPD'';
                string = add_option_string string ''xmlns:xsi''
                           ''http://www.w3.org/2001/XMLSchema-instance'';
                string = add_option_string string ''xmlns'' ''urn:mpeg:dash:schema:mpd:2011'';
                string = add_option_string string ''xsi:schemaLocation''
                           ''urn:mpeg:dash:schema:mpd:2011 DASH-MPD.xsd'';
                string = add_option_string string ''type'' ''static'';
                string = add_option_string string ''mediaPresentationDuration'' dur_pts;
                string = add_option_string string ''minBufferTime'' buf_pts;
                string = add_option_string string ''profiles''
                           ''urn:mpeg:dash:profile:isoff-on-demand:2011'';
                string = finish_line self string (Some ''>'');
                string = add_line self string 1 ''<Period>'';
                string = foldl (add_adaptation_set_cb self) string adaptations;
                string = add_line self string 1 ''</Period>''
            in add_line_no_newline self string 0 ''</MPD>''))"

text \<open>The result is the buffer and the length stored through \<^verbatim>\<open>length\<close>; \<open>None\<close> is the
  \<^verbatim>\<open>NULL\<close> of \<^verbatim>\<open>g_return_val_if_fail (self->media_info != NULL, NULL)\<close>, which returns
  before anything is stored through \<^verbatim>\<open>length\<close>.\<close>
definition gen_to_data_internal :: "GtuberManifestGenerator \<Rightarrow> (string \<times> gsize) option" where
  "gen_to_data_internal self =
     (case media_info self of
        None \<Rightarrow> None
      | Some info \<Rightarrow>
          (let string = dump_data self info []
           in Some (string, length string)))"

definition gtuber_manifest_generator_to_data :: "GtuberManifestGenerator \<Rightarrow> string option" where
  "gtuber_manifest_generator_to_data self = map_option fst (gen_to_data_internal self)"

definition gtuber_manifest_generator_set_media_info ::
  "GtuberManifestGenerator \<Rightarrow> GtuberMediaInfo option \<Rightarrow> GtuberManifestGenerator" where
  "gtuber_manifest_generator_set_media_info self info =
     (case info of
        None \<Rightarrow> self
      | Some i \<Rightarrow> self\<lparr>media_info := Some i\<rparr>)"

subsection \<open>Writing the file\<close>

text \<open>The file system: the content of each path that exists.\<close>
type_synonym filesystem = "string \<Rightarrow> string option"

text \<open>The \<^verbatim>\<open>GError\<close> that \<^verbatim>\<open>g_file_set_contents\<close> sets, with the \<^verbatim>\<open>errno\<close> of the step
  that failed; the spec calls it \<^verbatim>\<open>IoError\<close>.\<close>
datatype GError = G_FILE_ERROR nat

text \<open>What the environment decides in one call: whether writing the temporary file or
  renaming it fails (and with which \<^verbatim>\<open>errno\<close>), and the suffix of the temporary name.\<close>
record io_env =
  write_errno :: "nat option"
  rename_errno :: "nat option"
  tmp_suffix :: string

definition tmp_name :: "io_env \<Rightarrow> string \<Rightarrow> string" where
  "tmp_name env filename = filename @ ''.'' @ tmp_suffix env"

text \<open>Modelled from the spec: \<^verbatim>\<open>g_file_set_contents\<close> of GLib, the Atomic Persister of
  section 4.5, which is not part of this repository's sources: the text is written to a
  temporary file beside the target, which is then renamed over the target; when either
  step fails the target is left as it was and the error is returned. The spec leaves open
  what a failed call does with the temporary file (here it is removed) and what a call
  without contents does (here, as GLib documents, it is refused unless the length is 0).\<close>
definition g_file_set_contents ::
  "io_env \<Rightarrow> string \<Rightarrow> string option \<Rightarrow> gsize \<Rightarrow> filesystem \<Rightarrow> bool \<times> GError option \<times> filesystem" where
  "g_file_set_contents env filename contents len files =
     (if contents = None \<and> len \<noteq> 0 then (False, None, files)
      else
        (let bytes = (case contents of None \<Rightarrow> [] | Some text \<Rightarrow> take len text);
             tmp = tmp_name env filename
         in case write_errno env of
              Some e \<Rightarrow> (False, Some (G_FILE_ERROR e), files(tmp := None))
            | None \<Rightarrow>
                (let files1 = files(tmp \<mapsto> bytes)
                 in case rename_errno env of
                      Some e \<Rightarrow> (False, Some (G_FILE_ERROR e), files1(tmp := None))
                    | None \<Rightarrow> (True, None, files1(filename := files1 tmp, tmp := None)))))"

text \<open>\<^verbatim>\<open>gtuber_manifest_generator_to_file\<close>. The function that stands for
  \<^verbatim>\<open>g_file_set_contents\<close> is the argument \<open>set_contents\<close>. The local \<^verbatim>\<open>len\<close> is not
  initialised: \<open>len0\<close> is the value it happens to hold, which is what is passed on when
  \<^verbatim>\<open>gen_to_data_internal\<close> returns \<^verbatim>\<open>NULL\<close> without storing a length.\<close>
definition gtuber_manifest_generator_to_file ::
  "(string \<Rightarrow> string option \<Rightarrow> gsize \<Rightarrow> 'fs \<Rightarrow> bool \<times> GError option \<times> 'fs) \<Rightarrow> gsize \<Rightarrow>
   GtuberManifestGenerator \<Rightarrow> string option \<Rightarrow> 'fs \<Rightarrow> bool \<times> GError option \<times> 'fs" where
  "gtuber_manifest_generator_to_file set_contents len0 self filename fs =
     (case filename of
        None \<Rightarrow> (False, None, fs)
      | Some name \<Rightarrow>
          (let (data, len) = (case gen_to_data_internal self of
                                None \<Rightarrow> (None, len0)
                              | Some (string, n) \<Rightarrow> (Some string, n))
           in set_contents name data len fs))"

subsection \<open>The filter and its cleanup routine\<close>











section \<open>The specification's view\<close>

subsection \<open>Which streams are grouped, and how\<close>

definition recognized_mime :: "GtuberStreamMimeType \<Rightarrow> bool" where
  "recognized_mime m =
     (m = GTUBER_STREAM_MIME_TYPE_VIDEO_MP4 \<or> m = GTUBER_STREAM_MIME_TYPE_VIDEO_WEBM \<or>
      m = GTUBER_STREAM_MIME_TYPE_AUDIO_MP4 \<or> m = GTUBER_STREAM_MIME_TYPE_AUDIO_WEBM)"

definition is_video :: "GtuberStreamMimeType \<Rightarrow> bool" where
  "is_video m =
     (m = GTUBER_STREAM_MIME_TYPE_VIDEO_MP4 \<or> m = GTUBER_STREAM_MIME_TYPE_VIDEO_WEBM)"

definition filter_rejects :: "GtuberManifestGenerator \<Rightarrow> GtuberAdaptiveStream \<Rightarrow> bool" where
  "filter_rejects self s =
     (case filter_func self of
        None \<Rightarrow> False
      | Some f \<Rightarrow> \<not> f s (filter_data self))"

text \<open>The relevant codec string: the video codec for the video kinds, the audio codec
  for the audio kinds.\<close>
definition relevant_codec :: "GtuberAdaptiveStream \<Rightarrow> string option" where
  "relevant_codec s = (if is_video (mime_type s) then video_codec s else audio_codec s)"

definition matches_codec_prefix :: "GtuberAdaptiveStream \<Rightarrow> bool" where
  "matches_codec_prefix s =
     (case relevant_codec s of
        None \<Rightarrow> False
      | Some c \<Rightarrow>
          if is_video (mime_type s)
          then prefix ''avc'' c \<or> prefix ''vp9'' c \<or> prefix ''hev'' c \<or> prefix ''av01'' c
          else prefix ''mp4a'' c \<or> prefix ''opus'' c)"

definition excluded :: "GtuberManifestGenerator \<Rightarrow> GtuberAdaptiveStream \<Rightarrow> bool" where
  "excluded self s =
     (filter_rejects self s \<or> \<not> recognized_mime (mime_type s) \<or> \<not> matches_codec_prefix s)"

definition qualifying :: "GtuberManifestGenerator \<Rightarrow> GtuberAdaptiveStream list \<Rightarrow> GtuberAdaptiveStream list" where
  "qualifying self xs = filter (\<lambda>s. \<not> excluded self s) xs"

text \<open>The codec classes of section 4.1 of the specification, as tables of prefix and
  class in the order in which the prefixes are tried.\<close>
definition video_class_table :: "(string \<times> DashCodec) list" where
  "video_class_table =
     [(''avc'', DASH_CODEC_AVC), (''vp9'', DASH_CODEC_VP9),
      (''hev'', DASH_CODEC_HEVC), (''av01'', DASH_CODEC_AV1)]"

definition audio_class_table :: "(string \<times> DashCodec) list" where
  "audio_class_table = [(''mp4a'', DASH_CODEC_MP4A), (''opus'', DASH_CODEC_OPUS)]"

text \<open>The class of the first prefix of the table that the string starts with; Unknown
  when there is none.\<close>
fun classify :: "(string \<times> DashCodec) list \<Rightarrow> string \<Rightarrow> DashCodec" where
  "classify [] c = DASH_CODEC_UNKNOWN"
| "classify ((p, k) # table) c = (if prefix p c then k else classify table c)"

text \<open>The codec class of a stream: its relevant codec string classified by the video
  table for the video kinds and by the audio table for the audio kinds; Unknown when the
  string is absent.\<close>
definition codec_class :: "GtuberAdaptiveStream \<Rightarrow> DashCodec" where
  "codec_class s =
     (case relevant_codec s of
        None \<Rightarrow> DASH_CODEC_UNKNOWN
      | Some c \<Rightarrow>
          classify (if is_video (mime_type s) then video_class_table else audio_class_table) c)"

text \<open>The grouping key: container+kind and codec class.\<close>
definition stream_key :: "GtuberAdaptiveStream \<Rightarrow> GtuberStreamMimeType \<times> DashCodec" where
  "stream_key s = (mime_type s, codec_class s)"

definition adaptation_key :: "DashAdaptationData \<Rightarrow> GtuberStreamMimeType \<times> DashCodec" where
  "adaptation_key d = (ad_mime_type d, dash_codec d)"

text \<open>The elements of a list in the order of their first occurrence.\<close>
definition first_encounter :: "'a list \<Rightarrow> 'a list" where
  "first_encounter xs = rev (remdups (rev xs))"

text \<open>The groups the specification asks for: one for each key among the qualifying
  streams, in the order the keys are first met, holding the qualifying streams of that
  key in input order.\<close>
definition grouped ::
  "GtuberManifestGenerator \<Rightarrow> GtuberAdaptiveStream list \<Rightarrow>
   ((GtuberStreamMimeType \<times> DashCodec) \<times> GtuberAdaptiveStream list) list" where
  "grouped self xs =
     map (\<lambda>k. (k, filter (\<lambda>s. stream_key s = k) (qualifying self xs)))
         (first_encounter (map stream_key (qualifying self xs)))"

text \<open>The maximum of the values of a group's members, 0 when there is none; a member
  value of 0 leaves it as it is.\<close>
definition max_over :: "(GtuberAdaptiveStream \<Rightarrow> guint) \<Rightarrow> GtuberAdaptiveStream list \<Rightarrow> guint" where
  "max_over f members = Max (insert 0 (f ` set members))"

definition maxima_ok :: "DashAdaptationData \<Rightarrow> bool" where
  "maxima_ok d =
     (max_width d = max_over width (adaptive_streams d) \<and>
      max_height d = max_over height (adaptive_streams d) \<and>
      max_fps d = max_over fps (adaptive_streams d))"

subsection \<open>The document as a list of lines\<close>

text \<open>The document of section 4.4 of the specification, as its lines: the nesting depth
  of each line and its text, without indentation and line end. Nothing here depends on
  the pretty-print flag or on the indent width.\<close>

definition attr :: "string \<Rightarrow> string \<Rightarrow> string" where
  \<open>attr key val = '' '' @ key @ ''="'' @ val @ ''"''\<close>

definition range_text :: "guint64 \<times> guint64 \<Rightarrow> string" where
  "range_text r = show_nat (unat (fst r)) @ ''-'' @ show_nat (unat (snd r))"

definition representation_tag :: "GtuberAdaptiveStream \<Rightarrow> string" where
  "representation_tag a =
     ''<Representation'' @ attr ''id'' (show_nat (unat (itag a)))
     @ (case (video_codec a, audio_codec a) of
          (Some v, Some c) \<Rightarrow> attr ''codecs'' (v @ '', '' @ c)
        | (Some v, None) \<Rightarrow> attr ''codecs'' v
        | (None, Some c) \<Rightarrow> attr ''codecs'' c
        | (None, None) \<Rightarrow> [])
     @ attr ''bandwidth'' (show_nat (unat (bitrate a)))
     @ (if width a \<noteq> 0 then attr ''width'' (show_nat (unat (width a))) else [])
     @ (if height a \<noteq> 0 then attr ''height'' (show_nat (unat (height a))) else [])
     @ (if width a \<noteq> 0 \<and> height a \<noteq> 0 then attr ''sar'' ''1:1'' else [])
     @ (if fps a \<noteq> 0 then attr ''frameRate'' (show_nat (unat (fps a))) else [])
     @ ''>''"

definition segment_base_tag :: "GtuberAdaptiveStream \<Rightarrow> string" where
  "segment_base_tag a =
     ''<SegmentBase''
     @ (case index_range a of Some r \<Rightarrow> attr ''indexRange'' (range_text r) | None \<Rightarrow> [])
     @ attr ''indexRangeExact'' ''true'' @ ''>''"

definition initialization_tag :: "GtuberAdaptiveStream \<Rightarrow> string" where
  "initialization_tag a =
     ''<Initialization''
     @ (case init_range a of Some r \<Rightarrow> attr ''range'' (range_text r) | None \<Rightarrow> [])
     @ ''/>''"

definition representation_lines :: "GtuberAdaptiveStream \<Rightarrow> (nat \<times> string) list" where
  "representation_lines a =
     [(3, representation_tag a),
      (4, ''<BaseURL>'' @ uri a @ ''</BaseURL>''),
      (4, segment_base_tag a),
      (5, initialization_tag a),
      (4, ''</SegmentBase>''),
      (3, ''</Representation>'')]"

definition content_type :: "GtuberStreamMimeType \<Rightarrow> string" where
  "content_type m = (if is_video m then ''video'' else ''audio'')"

definition container :: "GtuberStreamMimeType \<Rightarrow> string" where
  "container m =
     (if m = GTUBER_STREAM_MIME_TYPE_VIDEO_MP4 \<or> m = GTUBER_STREAM_MIME_TYPE_AUDIO_MP4
      then ''mp4'' else ''webm'')"

definition adaptation_tag :: "DashAdaptationData \<Rightarrow> string" where
  "adaptation_tag d =
     ''<AdaptationSet'' @ attr ''contentType'' (content_type (ad_mime_type d))
     @ attr ''mimeType'' (content_type (ad_mime_type d) @ ''/'' @ container (ad_mime_type d))
     @ attr ''subsegmentAlignment'' ''true''
     @ attr ''subsegmentStartsWithSAP'' ''1''
     @ (if is_video (ad_mime_type d) then
          attr ''maxWidth'' (show_nat (unat (max_width d)))
          @ attr ''maxHeight'' (show_nat (unat (max_height d)))
          @ attr ''par'' (obtain_par_from_res (max_width d) (max_height d))
          @ attr ''maxFrameRate'' (show_nat (unat (max_fps d)))
        else [])
     @ ''>''"

definition adaptation_lines :: "DashAdaptationData \<Rightarrow> (nat \<times> string) list" where
  "adaptation_lines d =
     (if recognized_mime (ad_mime_type d) then
        [(2, adaptation_tag d)] @ concat (map representation_lines (adaptive_streams d))
        @ [(2, ''</AdaptationSet>'')]
      else [])"

definition xml_declaration :: string where
  \<open>xml_declaration = ''<?xml version="1.0" encoding="UTF-8"?>''\<close>

definition mpd_tag :: "GtuberMediaInfo \<Rightarrow> string" where
  "mpd_tag info =
     ''<MPD'' @ attr ''xmlns:xsi'' ''http://www.w3.org/2001/XMLSchema-instance''
     @ attr ''xmlns'' ''urn:mpeg:dash:schema:mpd:2011''
     @ attr ''xsi:schemaLocation'' ''urn:mpeg:dash:schema:mpd:2011 DASH-MPD.xsd''
     @ attr ''type'' ''static''
     @ attr ''mediaPresentationDuration'' (''PT'' @ show_nat (unat (duration info)) @ ''S'')
     @ attr ''minBufferTime'' (''PT'' @ show_nat (min 2 (unat (duration info))) @ ''S'')
     @ attr ''profiles'' ''urn:mpeg:dash:profile:isoff-on-demand:2011''
     @ ''>''"

text \<open>All lines but the last, which is the closing tag of the root element.\<close>
definition body_lines :: "GtuberMediaInfo \<Rightarrow> DashAdaptationData list \<Rightarrow> (nat \<times> string) list" where
  "body_lines info groups =
     [(0, xml_declaration), (0, mpd_tag info), (1, ''<Period>'')]
     @ concat (map adaptation_lines groups)
     @ [(1, ''</Period>'')]"

text \<open>The indentation of a line at depth \<open>d\<close> for indent width \<open>iw\<close>: the product as the
  32-bit unsigned arithmetic of the code gives it.\<close>
definition indentation :: "nat \<Rightarrow> nat \<Rightarrow> string" where
  "indentation iw d = replicate ((d * iw) mod 2 ^ 32) CHR '' ''"

text \<open>Pretty mode: every line of the body indented and ended by a newline, then the
  closing tag of the root element. Plain mode: the texts alone.\<close>
definition emit_pretty :: "nat \<Rightarrow> GtuberMediaInfo \<Rightarrow> DashAdaptationData list \<Rightarrow> string" where
  "emit_pretty iw info groups =
     (if groups = [] then []
      else concat (map (\<lambda>(d, t). indentation iw d @ t @ [CHR 0x0A]) (body_lines info groups))
           @ ''</MPD>'')"

definition emit_plain :: "GtuberMediaInfo \<Rightarrow> DashAdaptationData list \<Rightarrow> string" where
  "emit_plain info groups =
     (if groups = [] then []
      else concat (map snd (body_lines info groups)) @ ''</MPD>'')"

text \<open>The strings of a stream that end up in the document hold no line feed.\<close>
definition newline_free :: "GtuberAdaptiveStream \<Rightarrow> bool" where
  "newline_free a =
     (CHR 0x0A \<notin> set (uri a) \<and>
      CHR 0x0A \<notin> (case video_codec a of Some v \<Rightarrow> set v | None \<Rightarrow> {}) \<and>
      CHR 0x0A \<notin> (case audio_codec a of Some c \<Rightarrow> set c | None \<Rightarrow> {}))"

text \<open>A list of lines as text: in pretty mode (\<open>p\<close>) each line is indented and ended by
  a newline, otherwise the texts follow one another.\<close>
definition emit_lines :: "bool \<Rightarrow> nat \<Rightarrow> (nat \<times> string) list \<Rightarrow> string" where
  "emit_lines p iw ls =
     concat (map (\<lambda>(d, t). if p then indentation iw d @ t @ [CHR 0x0A] else t) ls)"

subsection \<open>The example of section 8\<close>

text \<open>Two AVC video streams (1280x720 and 640x360, 30 frames per second), one MP4A audio
  stream, and a WebM video stream in a codec that is not recognized.\<close>

definition example_video_720 :: GtuberAdaptiveStream where
  "example_video_720 =
     \<lparr>itag = 136, mime_type = GTUBER_STREAM_MIME_TYPE_VIDEO_MP4,
      video_codec = Some ''avc1.4d401f'', audio_codec = None,
      width = 1280, height = 720, fps = 30, bitrate = 2000000,
      uri = ''https://example.com/v720'', init_range = Some (0, 739),
      index_range = Some (740, 1999)\<rparr>"

definition example_video_360 :: GtuberAdaptiveStream where
  "example_video_360 =
     \<lparr>itag = 134, mime_type = GTUBER_STREAM_MIME_TYPE_VIDEO_MP4,
      video_codec = Some ''avc1.4d401e'', audio_codec = None,
      width = 640, height = 360, fps = 30, bitrate = 600000,
      uri = ''https://example.com/v360'', init_range = Some (0, 739),
      index_range = Some (740, 1999)\<rparr>"

definition example_audio :: GtuberAdaptiveStream where
  "example_audio =
     \<lparr>itag = 140, mime_type = GTUBER_STREAM_MIME_TYPE_AUDIO_MP4,
      video_codec = None, audio_codec = Some ''mp4a.40.2'',
      width = 0, height = 0, fps = 0, bitrate = 128000,
      uri = ''https://example.com/a'', init_range = None, index_range = None\<rparr>"

definition example_theora :: GtuberAdaptiveStream where
  "example_theora =
     \<lparr>itag = 5, mime_type = GTUBER_STREAM_MIME_TYPE_VIDEO_WEBM,
      video_codec = Some ''theora'', audio_codec = None,
      width = 320, height = 240, fps = 25, bitrate = 300000,
      uri = ''https://example.com/t'', init_range = None, index_range = None\<rparr>"

text \<open>Streams of the other codec classes, two classes sharing one container.\<close>

definition example_webm_vp9 :: GtuberAdaptiveStream where
  "example_webm_vp9 =
     \<lparr>itag = 247, mime_type = GTUBER_STREAM_MIME_TYPE_VIDEO_WEBM,
      video_codec = Some ''vp9'', audio_codec = None,
      width = 1280, height = 720, fps = 30, bitrate = 1500000,
      uri = ''https://example.com/vp9'', init_range = None, index_range = None\<rparr>"

definition example_webm_vp9_low :: GtuberAdaptiveStream where
  "example_webm_vp9_low =
     \<lparr>itag = 243, mime_type = GTUBER_STREAM_MIME_TYPE_VIDEO_WEBM,
      video_codec = Some ''vp9.2'', audio_codec = None,
      width = 640, height = 360, fps = 30, bitrate = 400000,
      uri = ''https://example.com/vp9low'', init_range = None, index_range = None\<rparr>"

definition example_webm_avc :: GtuberAdaptiveStream where
  "example_webm_avc =
     \<lparr>itag = 136, mime_type = GTUBER_STREAM_MIME_TYPE_VIDEO_WEBM,
      video_codec = Some ''avc1.4d401f'', audio_codec = None,
      width = 1280, height = 720, fps = 30, bitrate = 2000000,
      uri = ''https://example.com/avc'', init_range = None, index_range = None\<rparr>"

definition example_mp4_hevc :: GtuberAdaptiveStream where
  "example_mp4_hevc =
     \<lparr>itag = 400, mime_type = GTUBER_STREAM_MIME_TYPE_VIDEO_MP4,
      video_codec = Some ''hev1.1.6.L93'', audio_codec = None,
      width = 1920, height = 1080, fps = 60, bitrate = 3000000,
      uri = ''https://example.com/hevc'', init_range = None, index_range = None\<rparr>"

definition example_mp4_av1 :: GtuberAdaptiveStream where
  "example_mp4_av1 =
     \<lparr>itag = 399, mime_type = GTUBER_STREAM_MIME_TYPE_VIDEO_MP4,
      video_codec = Some ''av01.0.08M.08'', audio_codec = None,
      width = 1920, height = 1080, fps = 60, bitrate = 2500000,
      uri = ''https://example.com/av1'', init_range = None, index_range = None\<rparr>"

definition example_webm_opus :: GtuberAdaptiveStream where
  "example_webm_opus =
     \<lparr>itag = 251, mime_type = GTUBER_STREAM_MIME_TYPE_AUDIO_WEBM,
      video_codec = None, audio_codec = Some ''opus'',
      width = 0, height = 0, fps = 0, bitrate = 160000,
      uri = ''https://example.com/opus'', init_range = None, index_range = None\<rparr>"

definition example_webm_mp4a :: GtuberAdaptiveStream where
  "example_webm_mp4a =
     \<lparr>itag = 141, mime_type = GTUBER_STREAM_MIME_TYPE_AUDIO_WEBM,
      video_codec = None, audio_codec = Some ''mp4a.40.2'',
      width = 0, height = 0, fps = 0, bitrate = 256000,
      uri = ''https://example.com/mp4a'', init_range = None, index_range = None\<rparr>"

definition example_info :: GtuberMediaInfo where
  "example_info =
     \<lparr>duration = 125,
      info_adaptive_streams = [example_video_720, example_video_360, example_audio]\<rparr>"

text \<open>A generator in pretty mode with indent width 4 that holds the example.\<close>
definition example_generator :: GtuberManifestGenerator where
  "example_generator =
     gtuber_manifest_generator_init\<lparr>pretty := True, indent := 4, media_info := Some example_info\<rparr>"

text \<open>The document for the example, in pretty mode with indent width 4 and in plain
  mode.\<close>
definition example_document :: string where
  \<open>example_document =
     ''<?xml version="1.0" encoding="UTF-8"?>'' @ [CHR 0x0A]
     @ ''<MPD xmlns:xsi="http://www.w3.org/2001/XMLSchema-instance" xmlns="urn:mpeg:dash:schema:mpd:2011" xsi:schemaLocation="urn:mpeg:dash:schema:mpd:2011 DASH-MPD.xsd" type="static" mediaPresentationDuration="PT125S" minBufferTime="PT2S" profiles="urn:mpeg:dash:profile:isoff-on-demand:2011">'' @ [CHR 0x0A]
     @ ''    <Period>'' @ [CHR 0x0A]
     @ ''        <AdaptationSet contentType="video" mimeType="video/mp4" subsegmentAlignment="true" subsegmentStartsWithSAP="1" maxWidth="1280" maxHeight="720" par="16:9" maxFrameRate="30">'' @ [CHR 0x0A]
     @ ''            <Representation id="136" codecs="avc1.4d401f" bandwidth="2000000" width="1280" height="720" sar="1:1" frameRate="30">'' @ [CHR 0x0A]
     @ ''                <BaseURL>https://example.com/v720</BaseURL>'' @ [CHR 0x0A]
     @ ''                <SegmentBase indexRange="740-1999" indexRangeExact="true">'' @ [CHR 0x0A]
     @ ''                    <Initialization range="0-739"/>'' @ [CHR 0x0A]
     @ ''                </SegmentBase>'' @ [CHR 0x0A]
     @ ''            </Representation>'' @ [CHR 0x0A]
     @ ''            <Representation id="134" codecs="avc1.4d401e" bandwidth="600000" width="640" height="360" sar="1:1" frameRate="30">'' @ [CHR 0x0A]
     @ ''                <BaseURL>https://example.com/v360</BaseURL>'' @ [CHR 0x0A]
     @ ''                <SegmentBase indexRange="740-1999" indexRangeExact="true">'' @ [CHR 0x0A]
     @ ''                    <Initialization range="0-739"/>'' @ [CHR 0x0A]
     @ ''                </SegmentBase>'' @ [CHR 0x0A]
     @ ''            </Representation>'' @ [CHR 0x0A]
     @ ''        </AdaptationSet>'' @ [CHR 0x0A]
     @ ''        <AdaptationSet contentType="audio" mimeType="audio/mp4" subsegmentAlignment="true" subsegmentStartsWithSAP="1">'' @ [CHR 0x0A]
     @ ''            <Representation id="140" codecs="mp4a.40.2" bandwidth="128000">'' @ [CHR 0x0A]
     @ ''                <BaseURL>https://example.com/a</BaseURL>'' @ [CHR 0x0A]
     @ ''                <SegmentBase indexRangeExact="true">'' @ [CHR 0x0A]
     @ ''                    <Initialization/>'' @ [CHR 0x0A]
     @ ''                </SegmentBase>'' @ [CHR 0x0A]
     @ ''            </Representation>'' @ [CHR 0x0A]
     @ ''        </AdaptationSet>'' @ [CHR 0x0A]
     @ ''    </Period>'' @ [CHR 0x0A]
     @ ''</MPD>''\<close>

definition example_document_plain :: string where
  \<open>example_document_plain =
     ''<?xml version="1.0" encoding="UTF-8"?>''
     @ ''<MPD xmlns:xsi="http://www.w3.org/2001/XMLSchema-instance" xmlns="urn:mpeg:dash:schema:mpd:2011" xsi:schemaLocation="urn:mpeg:dash:schema:mpd:2011 DASH-MPD.xsd" type="static" mediaPresentationDuration="PT125S" minBufferTime="PT2S" profiles="urn:mpeg:dash:profile:isoff-on-demand:2011">''
     @ ''<Period>''
     @ ''<AdaptationSet contentType="video" mimeType="video/mp4" subsegmentAlignment="true" subsegmentStartsWithSAP="1" maxWidth="1280" maxHeight="720" par="16:9" maxFrameRate="30">''
     @ ''<Representation id="136" codecs="avc1.4d401f" bandwidth="2000000" width="1280" height="720" sar="1:1" frameRate="30">''
     @ ''<BaseURL>https://example.com/v720</BaseURL>''
     @ ''<SegmentBase indexRange="740-1999" indexRangeExact="true">''
     @ ''<Initialization range="0-739"/>''
     @ ''</SegmentBase>''
     @ ''</Representation>''
     @ ''<Representation id="134" codecs="avc1.4d401e" bandwidth="600000" width="640" height="360" sar="1:1" frameRate="30">''
     @ ''<BaseURL>https://example.com/v360</BaseURL>''
     @ ''<SegmentBase indexRange="740-1999" indexRangeExact="true">''
     @ ''<Initialization range="0-739"/>''
     @ ''</SegmentBase>''
     @ ''</Representation>''
     @ ''</AdaptationSet>''
     @ ''<AdaptationSet contentType="audio" mimeType="audio/mp4" subsegmentAlignment="true" subsegmentStartsWithSAP="1">''
     @ ''<Representation id="140" codecs="mp4a.40.2" bandwidth="128000">''
     @ ''<BaseURL>https://example.com/a</BaseURL>''
     @ ''<SegmentBase indexRangeExact="true">''
     @ ''<Initialization/>''
     @ ''</SegmentBase>''
     @ ''</Representation>''
     @ ''</AdaptationSet>''
     @ ''</Period>''
     @ ''</MPD>''\<close>

text \<open>A file system call in which nothing fails, and one in which the rename fails with
  \<^verbatim>\<open>EACCES\<close>.\<close>
definition io_ok :: io_env where
  "io_ok = \<lparr>write_errno = None, rename_errno = None, tmp_suffix = ''XXXXXX''\<rparr>"

definition io_rename_fails :: io_env where
  "io_rename_fails = \<lparr>write_errno = None, rename_errno = Some 13, tmp_suffix = ''XXXXXX''\<rparr>"

section \<open>Pixel aspect ratio\<close>

lemma unat_get_gcd: "unat (get_gcd w h) = gcd (unat w) (unat h)"
proof (induction w h rule: get_gcd.induct)
  case (1 w h)
  show ?case
  proof (cases "h > 0")
    case True
    then have "unat (get_gcd w h) = gcd (unat h) (unat w mod unat h)"
      using 1 by (simp add: get_gcd.simps [of w h] unat_mod)
    then show ?thesis using gcd_red_nat [of "unat w" "unat h"] by simp
  next
    case False
    then have "h = 0" by (simp add: word_greater_zero_iff)
    then show ?thesis by (simp add: get_gcd.simps [of w 0])
  qed
qed

lemma par_examples:
  "obtain_par_from_res 0 0 = ''1:1''" "obtain_par_from_res 7 0 = ''1:1''"
  "obtain_par_from_res 1920 1080 = ''16:9''" "obtain_par_from_res 1280 720 = ''16:9''"
  by (simp_all add: obtain_par_from_res_def get_gcd.simps show_int_def show_nat.simps)

text \<open>Below \<open>2 ^ 31\<close> the signed reading of a quotient is the quotient, and the text is
  the reduced ratio.\<close>

lemma sint_small: "unat (x :: guint) < 2 ^ 31 \<Longrightarrow> sint x = int (unat x)"
proof -
  assume a: "unat x < 2 ^ 31"
  have u: "uint x = int (unat x)" by simp
  have "int (unat x) < 2 ^ 31" using a by (metis of_nat_less_iff of_nat_numeral of_nat_power)
  moreover have "- (2 ^ 31) \<le> int (unat x)"
    by (rule order_trans [of _ 0]) simp_all
  ultimately have "signed_take_bit 31 (int (unat x)) = int (unat x)"
    by (intro signed_take_bit_int_eq_self)
  then show ?thesis by (simp add: sint_uint)
qed

lemma par_below_2_31:
  assumes "w \<noteq> 0" "h \<noteq> 0"
    and "unat w div gcd (unat w) (unat h) < 2 ^ 31" "unat h div gcd (unat w) (unat h) < 2 ^ 31"
  shows "obtain_par_from_res w h =
           show_nat (unat w div gcd (unat w) (unat h)) @ '':''
           @ show_nat (unat h div gcd (unat w) (unat h))"
proof -
  have w: "unat (w div get_gcd w h) = unat w div gcd (unat w) (unat h)"
    by (simp add: unat_div unat_get_gcd)
  have h: "unat (h div get_gcd w h) = unat h div gcd (unat w) (unat h)"
    by (simp add: unat_div unat_get_gcd)
  show ?thesis
    using assms sint_small [of "w div get_gcd w h"] sint_small [of "h div get_gcd w h"]
    by (simp add: obtain_par_from_res_def Let_def show_int_def w h)
qed

text \<open>C5: for every pair of unsigned integers, \<open>par\<close> is \<open>1:1\<close> when one of them is 0 and
  otherwise the two numbers divided by their greatest common divisor. The code prints the
  two \<^verbatim>\<open>guint\<close> quotients with \<^verbatim>\<open>%i\<close>, so a quotient of \<open>2 ^ 31\<close> or more comes out
  negative: for 4294967295 and 1 the divisor is 1 and the text is \<open>-1:1\<close>, not
  \<open>4294967295:1\<close>.\<close>
theorem par_signed_format: "obtain_par_from_res 4294967295 1 = ''-1:1''"
  by (simp add: obtain_par_from_res_def get_gcd.simps show_int_def show_nat.simps)

section \<open>The filter's cleanup routine\<close>














section \<open>Grouping\<close>

lemma stream_codec_ok:
  "(fst (stream_codec s) \<noteq> None \<and> snd (stream_codec s) \<noteq> DASH_CODEC_UNKNOWN)
     \<longleftrightarrow> (recognized_mime (mime_type s) \<and> matches_codec_prefix s)"
  by (cases "mime_type s")
     (auto simp: stream_codec_def recognized_mime_def matches_codec_prefix_def relevant_codec_def
        is_video_def get_dash_video_codec_def get_dash_audio_codec_def split: option.splits)

lemma get_dash_video_codec_table:
  "get_dash_video_codec codec =
     (case codec of None \<Rightarrow> DASH_CODEC_UNKNOWN | Some c \<Rightarrow> classify video_class_table c)"
  by (simp add: get_dash_video_codec_def video_class_table_def split: option.splits)

lemma get_dash_audio_codec_table:
  "get_dash_audio_codec codec =
     (case codec of None \<Rightarrow> DASH_CODEC_UNKNOWN | Some c \<Rightarrow> classify audio_class_table c)"
  by (simp add: get_dash_audio_codec_def audio_class_table_def split: option.splits)

lemma stream_codec_key:
  "recognized_mime (mime_type s) \<Longrightarrow> snd (stream_codec s) = snd (stream_key s)"
  by (cases "mime_type s")
     (auto simp: stream_codec_def recognized_mime_def stream_key_def is_video_def codec_class_def
        relevant_codec_def get_dash_video_codec_table get_dash_audio_codec_table)

lemma find_adaptation_None:
  "find_adaptation ds m c = None \<longleftrightarrow> (m, c) \<notin> adaptation_key ` set ds"
  by (induction ds) (auto simp: adaptation_key_def)

lemma find_adaptation_update:
  "distinct (map adaptation_key ds) \<Longrightarrow> find_adaptation ds m c = Some i \<Longrightarrow>
   ds[i := f (ds ! i)] = map (\<lambda>d. if adaptation_key d = (m, c) then f d else d) ds"
proof (induction ds arbitrary: i)
  case Nil
  then show ?case by simp
next
  case (Cons d ds)
  show ?case
  proof (cases "ad_mime_type d = m \<and> dash_codec d = c")
    case True
    then have i: "i = 0" using Cons.prems(2) by simp
    have "(m, c) \<notin> adaptation_key ` set ds"
      using Cons.prems(1) True by (auto simp: adaptation_key_def)
    then have "map (\<lambda>d. if adaptation_key d = (m, c) then f d else d) ds = ds"
      by (intro map_idI) (auto simp: image_iff)
    then show ?thesis using True i by (simp add: adaptation_key_def)
  next
    case False
    then obtain j where j: "find_adaptation ds m c = Some j" "i = Suc j"
      using Cons.prems(2) by auto
    have "ds[j := f (ds ! j)] = map (\<lambda>d. if adaptation_key d = (m, c) then f d else d) ds"
      using Cons.IH [OF _ j(1)] Cons.prems(1) by simp
    then show ?thesis using False j by (auto simp: adaptation_key_def)
  qed
qed

lemma find_adaptation_Some_mem:
  "find_adaptation ds m c = Some i \<Longrightarrow> (m, c) \<in> adaptation_key ` set ds"
  using find_adaptation_None [of ds m c] by auto

lemma excluded_iff:
  "excluded self s \<longleftrightarrow>
     \<not> ((case filter_func self of None \<Rightarrow> True | Some f \<Rightarrow> f s (filter_data self))
        \<and> fst (stream_codec s) \<noteq> None \<and> snd (stream_codec s) \<noteq> DASH_CODEC_UNKNOWN)"
  unfolding stream_codec_ok
  by (auto simp: excluded_def filter_rejects_def split: option.splits)

lemma stream_key_qualifying:
  "\<not> excluded self s \<Longrightarrow> stream_key s = (mime_type s, snd (stream_codec s))"
  using stream_codec_key [of s] by (auto simp: excluded_def stream_key_def)

lemma sort_streams_cb_eq:
  assumes "distinct (map adaptation_key gs)"
  shows "sort_streams_cb self gs x =
     (if excluded self x then gs
      else if stream_key x \<in> adaptation_key ` set gs
      then map (\<lambda>d. if adaptation_key d = stream_key x then add_stream_to_adaptation x d else d) gs
      else gs @ [add_stream_to_adaptation x
                   (dash_adaptation_data_new (fst (stream_key x)) (snd (stream_key x)))])"
proof (cases "excluded self x")
  case True
  then show ?thesis
    unfolding excluded_iff
    by (cases "stream_codec x")
       (auto simp: sort_streams_cb_def get_adaptation_data_for_stream_def split: option.splits)
next
  case False
  note k = stream_key_qualifying [OF False]
  have acc: "(case filter_func self of None \<Rightarrow> True | Some f \<Rightarrow> f x (filter_data self))"
    and ok: "fst (stream_codec x) \<noteq> None" "snd (stream_codec x) \<noteq> DASH_CODEC_UNKNOWN"
    using False unfolding excluded_iff by auto
  show ?thesis
  proof (cases "find_adaptation gs (mime_type x) (snd (stream_codec x))")
    case None
    then have "stream_key x \<notin> adaptation_key ` set gs"
      by (simp add: find_adaptation_None k)
    then show ?thesis
      using False acc ok None
      by (cases "stream_codec x")
         (auto simp: sort_streams_cb_def get_adaptation_data_for_stream_def k)
  next
    case (Some i)
    have "stream_key x \<in> adaptation_key ` set gs"
      using find_adaptation_Some_mem [OF Some] by (simp add: k)
    then show ?thesis
      using False acc ok Some find_adaptation_update [OF assms Some, of "add_stream_to_adaptation x"]
      by (cases "stream_codec x")
         (auto simp: sort_streams_cb_def get_adaptation_data_for_stream_def k)
  qed
qed


lemma adaptation_key_add [simp]:
  "adaptation_key (add_stream_to_adaptation x d) = adaptation_key d"
  by (simp add: adaptation_key_def add_stream_to_adaptation_def)

lemma adaptive_streams_add [simp]:
  "adaptive_streams (add_stream_to_adaptation x d) = adaptive_streams d @ [x]"
  by (simp add: add_stream_to_adaptation_def)

lemma adaptation_key_new [simp]: "adaptation_key (dash_adaptation_data_new m c) = (m, c)"
  by (simp add: adaptation_key_def dash_adaptation_data_new_def)

lemma adaptive_streams_new [simp]: "adaptive_streams (dash_adaptation_data_new m c) = []"
  by (simp add: dash_adaptation_data_new_def)

lemma first_encounter_snoc:
  "first_encounter (xs @ [x]) = (if x \<in> set xs then first_encounter xs else first_encounter xs @ [x])"
  by (simp add: first_encounter_def)

lemma set_first_encounter [simp]: "set (first_encounter xs) = set xs"
  by (simp add: first_encounter_def)

lemma distinct_first_encounter [simp]: "distinct (first_encounter xs)"
  by (simp add: first_encounter_def)

lemma sort_streams_snoc:
  "sort_streams self (xs @ [x]) = sort_streams_cb self (sort_streams self xs) x"
  by (simp add: sort_streams_def)

lemma qualifying_snoc:
  "qualifying self (xs @ [x]) = (if excluded self x then qualifying self xs else qualifying self xs @ [x])"
  by (simp add: qualifying_def)

lemma sort_streams_keys:
  "map adaptation_key (sort_streams self xs) = first_encounter (map stream_key (qualifying self xs))"
proof (induction xs rule: rev_induct)
  case Nil
  show ?case by (simp add: sort_streams_def qualifying_def first_encounter_def)
next
  case (snoc x xs)
  have d: "distinct (map adaptation_key (sort_streams self xs))"
    by (simp add: snoc.IH)
  have s: "adaptation_key ` set (sort_streams self xs) = stream_key ` set (qualifying self xs)"
    using arg_cong [OF snoc.IH, of set] by simp
  have m: "map (adaptation_key \<circ>
                (\<lambda>d. if adaptation_key d = k then add_stream_to_adaptation x d else d)) gs
           = map adaptation_key gs" for k gs
    by (induction gs) auto
  show ?case
    unfolding sort_streams_snoc sort_streams_cb_eq [OF d] qualifying_snoc
    by (simp add: s m snoc.IH first_encounter_snoc)
qed

lemma sort_streams_distinct: "distinct (map adaptation_key (sort_streams self xs))"
  by (simp add: sort_streams_keys)

lemma sort_streams_members:
  "d \<in> set (sort_streams self xs) \<Longrightarrow>
   adaptive_streams d = filter (\<lambda>s. stream_key s = adaptation_key d) (qualifying self xs)"
proof (induction xs arbitrary: d rule: rev_induct)
  case Nil
  then show ?case by (simp add: sort_streams_def)
next
  case (snoc x xs)
  let ?gs = "sort_streams self xs"
  have s: "adaptation_key ` set ?gs = stream_key ` set (qualifying self xs)"
    using arg_cong [OF sort_streams_keys [of self xs], of set] by simp
  show ?case
  proof (cases "excluded self x")
    case True
    then show ?thesis
      using snoc by (simp add: sort_streams_snoc sort_streams_cb_eq [OF sort_streams_distinct] qualifying_snoc)
  next
    case False
    show ?thesis
    proof (cases "stream_key x \<in> adaptation_key ` set ?gs")
      case True
      then obtain d0 where d0: "d0 \<in> set ?gs"
        "d = (if adaptation_key d0 = stream_key x then add_stream_to_adaptation x d0 else d0)"
        using snoc.prems False
        by (auto simp: sort_streams_snoc sort_streams_cb_eq [OF sort_streams_distinct])
      show ?thesis
        using d0 snoc.IH [OF d0(1)] False by (auto simp: qualifying_snoc)
    next
      case notin: False
      then have none: "filter (\<lambda>s. stream_key s = stream_key x) (qualifying self xs) = []"
        unfolding s by (auto simp: filter_empty_conv) (metis imageI)
      have "d \<in> set ?gs \<or>
            d = add_stream_to_adaptation x
                  (dash_adaptation_data_new (fst (stream_key x)) (snd (stream_key x)))"
        using snoc.prems False notin
        by (auto simp: sort_streams_snoc sort_streams_cb_eq [OF sort_streams_distinct])
      then show ?thesis
      proof
        assume d: "d \<in> set ?gs"
        then have "adaptation_key d \<noteq> stream_key x" using notin by (metis imageI)
        then show ?thesis using snoc.IH [OF d] False by (auto simp: qualifying_snoc)
      next
        assume "d = add_stream_to_adaptation x
                  (dash_adaptation_data_new (fst (stream_key x)) (snd (stream_key x)))"
        then show ?thesis using False none by (simp add: qualifying_snoc)
      qed
    qed
  qed
qed

lemma mset_members_update:
  "distinct (map adaptation_key gs) \<Longrightarrow> k \<in> adaptation_key ` set gs \<Longrightarrow>
   mset (concat (map adaptive_streams
     (map (\<lambda>d. if adaptation_key d = k then add_stream_to_adaptation x d else d) gs)))
   = add_mset x (mset (concat (map adaptive_streams gs)))"
proof (induction gs)
  case Nil
  then show ?case by simp
next
  case (Cons d gs)
  show ?case
  proof (cases "adaptation_key d = k")
    case True
    then have "k \<notin> adaptation_key ` set gs" using Cons.prems(1) by auto
    then have "map (\<lambda>d. if adaptation_key d = k then add_stream_to_adaptation x d else d) gs = gs"
      by (intro map_idI) (auto simp: image_iff)
    then show ?thesis using True by simp
  next
    case False
    then have "k \<in> adaptation_key ` set gs" using Cons.prems(2) by auto
    then show ?thesis using Cons.IH Cons.prems(1) False by simp
  qed
qed

lemma sort_streams_mset:
  "mset (concat (map adaptive_streams (sort_streams self xs))) = mset (qualifying self xs)"
proof (induction xs rule: rev_induct)
  case Nil
  show ?case by (simp add: sort_streams_def qualifying_def)
next
  case (snoc x xs)
  show ?case
    using snoc.IH mset_members_update [OF sort_streams_distinct, of "stream_key x" self xs x]
    by (simp add: sort_streams_snoc sort_streams_cb_eq [OF sort_streams_distinct] qualifying_snoc)
qed

text \<open>C1: for every stream sequence and every filter, the adaptations are exactly the
  groups of the streams that are not excluded, a stream being excluded when the filter
  rejects it, its container+kind is none of the four recognized ones, or its relevant
  codec string matches no recognized prefix: one adaptation for each key (container+kind,
  codec class), the class being the one the tables of section 4.1 give (\<open>avc\<close>, \<open>vp9\<close>,
  \<open>hev\<close>, \<open>av01\<close> for video, \<open>mp4a\<close>, \<open>opus\<close> for audio, first match), in the order the
  keys are first met, each holding the qualifying streams of its key in input order. The keys of the adaptations are distinct and the members of
  all adaptations together are the qualifying streams, each as often as it occurs.\<close>
theorem grouping_partition:
  "map (\<lambda>d. (adaptation_key d, adaptive_streams d)) (sort_streams self xs) = grouped self xs
   \<and> distinct (map adaptation_key (sort_streams self xs))
   \<and> mset (concat (map adaptive_streams (sort_streams self xs))) = mset (qualifying self xs)"
proof -
  have "map (\<lambda>d. (adaptation_key d, adaptive_streams d)) (sort_streams self xs)
      = map (\<lambda>d. (adaptation_key d,
                   filter (\<lambda>s. stream_key s = adaptation_key d) (qualifying self xs)))
            (sort_streams self xs)"
    by (rule map_cong) (simp_all add: sort_streams_members)
  also have "\<dots> = map (\<lambda>k. (k, filter (\<lambda>s. stream_key s = k) (qualifying self xs)))
                      (map adaptation_key (sort_streams self xs))"
    by (simp add: comp_def)
  finally have "map (\<lambda>d. (adaptation_key d, adaptive_streams d)) (sort_streams self xs)
      = grouped self xs"
    by (simp add: sort_streams_keys grouped_def)
  then show ?thesis by (simp add: sort_streams_distinct sort_streams_mset)
qed

lemma max_over_snoc: "max_over f (ms @ [x]) = max (max_over f ms) (f x)"
proof -
  have "insert 0 (f ` set (ms @ [x])) = insert (f x) (insert 0 (f ` set ms))" by auto
  then show ?thesis by (simp add: max_over_def max.commute)
qed

lemma maxima_ok_add: "maxima_ok d \<Longrightarrow> maxima_ok (add_stream_to_adaptation x d)"
  by (simp add: maxima_ok_def max_over_snoc) (simp add: add_stream_to_adaptation_def)

lemma maxima_ok_new: "maxima_ok (dash_adaptation_data_new m c)"
  by (simp add: maxima_ok_def max_over_def dash_adaptation_data_new_def)

lemma sort_streams_maxima: "d \<in> set (sort_streams self xs) \<Longrightarrow> maxima_ok d"
proof (induction xs arbitrary: d rule: rev_induct)
  case Nil
  then show ?case by (simp add: sort_streams_def)
next
  case (snoc x xs)
  then show ?case
    by (auto simp: sort_streams_snoc sort_streams_cb_eq [OF sort_streams_distinct]
          maxima_ok_add maxima_ok_new split: if_splits)
qed

text \<open>C4: after any number \<open>n\<close> of streams of any input has been processed, the maximal
  width, height and frame rate of every adaptation are the maxima of those values over
  its members and 0, so a member value of 0 never lowers them and they are 0 when no
  member has a non-zero value.\<close>
theorem maxima_invariant: "d \<in> set (sort_streams self (take n xs)) \<Longrightarrow> maxima_ok d"
  by (rule sort_streams_maxima)

lemmas example_defs =
  example_video_720_def example_video_360_def example_audio_def example_theora_def

lemmas class_example_defs =
  example_webm_vp9_def example_webm_vp9_low_def example_webm_avc_def example_mp4_hevc_def
  example_mp4_av1_def example_webm_opus_def example_webm_mp4a_def

lemmas grouping_defs =
  sort_streams_def sort_streams_cb_def get_adaptation_data_for_stream_def stream_codec_def
  get_dash_video_codec_def get_dash_audio_codec_def dash_adaptation_data_new_def
  add_stream_to_adaptation_def gtuber_manifest_generator_init_def

lemmas grouped_defs =
  grouped_def qualifying_def excluded_def filter_rejects_def recognized_mime_def
  matches_codec_prefix_def relevant_codec_def is_video_def stream_key_def first_encounter_def
  codec_class_def video_class_table_def audio_class_table_def
  adaptation_key_def get_dash_video_codec_def get_dash_audio_codec_def
  gtuber_manifest_generator_init_def

theorem grouping_partition_witness:
  "map (\<lambda>d. (adaptation_key d, adaptive_streams d))
     (sort_streams gtuber_manifest_generator_init
        [example_video_720, example_audio, example_theora, example_video_360])
   = [((GTUBER_STREAM_MIME_TYPE_VIDEO_MP4, DASH_CODEC_AVC), [example_video_720, example_video_360]),
      ((GTUBER_STREAM_MIME_TYPE_AUDIO_MP4, DASH_CODEC_MP4A), [example_audio])]
   \<and> map (\<lambda>d. (adaptation_key d, adaptive_streams d))
     (sort_streams gtuber_manifest_generator_init
        [example_webm_vp9, example_webm_avc, example_mp4_hevc, example_mp4_av1,
         example_webm_opus, example_webm_vp9_low, example_webm_mp4a, example_video_720])
   = [((GTUBER_STREAM_MIME_TYPE_VIDEO_WEBM, DASH_CODEC_VP9), [example_webm_vp9, example_webm_vp9_low]),
      ((GTUBER_STREAM_MIME_TYPE_VIDEO_WEBM, DASH_CODEC_AVC), [example_webm_avc]),
      ((GTUBER_STREAM_MIME_TYPE_VIDEO_MP4, DASH_CODEC_HEVC), [example_mp4_hevc]),
      ((GTUBER_STREAM_MIME_TYPE_VIDEO_MP4, DASH_CODEC_AV1), [example_mp4_av1]),
      ((GTUBER_STREAM_MIME_TYPE_AUDIO_WEBM, DASH_CODEC_OPUS), [example_webm_opus]),
      ((GTUBER_STREAM_MIME_TYPE_AUDIO_WEBM, DASH_CODEC_MP4A), [example_webm_mp4a]),
      ((GTUBER_STREAM_MIME_TYPE_VIDEO_MP4, DASH_CODEC_AVC), [example_video_720])]"
  using grouping_partition [of gtuber_manifest_generator_init
        "[example_video_720, example_audio, example_theora, example_video_360]"]
    grouping_partition [of gtuber_manifest_generator_init
        "[example_webm_vp9, example_webm_avc, example_mp4_hevc, example_mp4_av1,
          example_webm_opus, example_webm_vp9_low, example_webm_mp4a, example_video_720]"]
  by (simp add: grouped_defs example_defs class_example_defs)

theorem maxima_invariant_witness:
  "\<lparr>ad_mime_type = GTUBER_STREAM_MIME_TYPE_VIDEO_MP4, dash_codec = DASH_CODEC_AVC,
     max_width = 1280, max_height = 720, max_fps = 30,
     adaptive_streams = [example_video_720\<lparr>width := 0, height := 0\<rparr>, example_video_720,
                         example_video_360\<lparr>height := 480\<rparr>]\<rparr>
     \<in> set (sort_streams gtuber_manifest_generator_init
          (take 3 [example_video_720\<lparr>width := 0, height := 0\<rparr>, example_video_720,
                   example_video_360\<lparr>height := 480\<rparr>, example_audio]))
   \<and> max_over height [example_video_720\<lparr>width := 0, height := 0\<rparr>, example_video_720,
                        example_video_360\<lparr>height := 480\<rparr>] = 720"
proof -
  let ?d = "\<lparr>ad_mime_type = GTUBER_STREAM_MIME_TYPE_VIDEO_MP4, dash_codec = DASH_CODEC_AVC,
     max_width = 1280, max_height = 720, max_fps = 30,
     adaptive_streams = [example_video_720\<lparr>width := 0, height := 0\<rparr>, example_video_720,
                         example_video_360\<lparr>height := 480\<rparr>]\<rparr>"
  have h: "?d \<in> set (sort_streams gtuber_manifest_generator_init
          (take 3 [example_video_720\<lparr>width := 0, height := 0\<rparr>, example_video_720,
                   example_video_360\<lparr>height := 480\<rparr>, example_audio]))"
    by (simp add: grouping_defs example_defs)
  show ?thesis using h maxima_invariant [OF h] by (simp add: maxima_ok_def)
qed

section \<open>The emitted document\<close>

lemma emit_lines_simps [simp]:
  "emit_lines p iw [] = []"
  "emit_lines p iw ((d, t) # ls) = (if p then indentation iw d @ t @ [CHR 0x0A] else t) @ emit_lines p iw ls"
  "emit_lines p iw (ls @ ms) = emit_lines p iw ls @ emit_lines p iw ms"
  by (simp_all add: emit_lines_def)

lemma emit_lines_concat:
  "emit_lines p iw (concat lss) = concat (map (emit_lines p iw) lss)"
  by (induction lss) simp_all

lemma unat_depth: "unat (of_nat d * i :: 32 word) = (d * unat i) mod 2 ^ 32"
  by (simp add: unat_word_ariths unat_of_nat mod_mult_left_eq)

lemma add_line_no_newline_eq:
  "add_line_no_newline gen s (of_nat d) line =
     s @ (if pretty gen then indentation (unat (indent gen)) d else []) @ line"
  by (simp add: add_line_no_newline_def Let_def indentation_def unat_depth)

lemma add_line_no_newline_numerals:
  "add_line_no_newline gen s 0 line = s @ (if pretty gen then indentation (unat (indent gen)) 0 else []) @ line"
  "add_line_no_newline gen s 1 line = s @ (if pretty gen then indentation (unat (indent gen)) 1 else []) @ line"
  "add_line_no_newline gen s 2 line = s @ (if pretty gen then indentation (unat (indent gen)) 2 else []) @ line"
  "add_line_no_newline gen s 3 line = s @ (if pretty gen then indentation (unat (indent gen)) 3 else []) @ line"
  "add_line_no_newline gen s 4 line = s @ (if pretty gen then indentation (unat (indent gen)) 4 else []) @ line"
  "add_line_no_newline gen s 5 line = s @ (if pretty gen then indentation (unat (indent gen)) 5 else []) @ line"
  using add_line_no_newline_eq [of gen s 0 line] add_line_no_newline_eq [of gen s 1 line]
    add_line_no_newline_eq [of gen s 2 line] add_line_no_newline_eq [of gen s 3 line]
    add_line_no_newline_eq [of gen s 4 line] add_line_no_newline_eq [of gen s 5 line]
  by simp_all

lemma indentation_0 [simp]: "indentation iw 0 = []"
  by (simp add: indentation_def)

lemma add_option_eqs:
  "add_option_string s k v = s @ attr k v"
  "add_option_int s k n = s @ attr k (show_nat (unat n))"
  "add_option_range s k a b = s @ attr k (range_text (a, b))"
  "add_option_boolean s k True = s @ attr k ''true''"
  by (simp_all add: add_option_string_def add_option_int_def add_option_range_def
        add_option_boolean_def attr_def range_text_def)

lemma unat_ucast_guint: "unat (ucast (x :: guint) :: guint64) = unat x"
proof -
  have "unat x < 2 ^ 32" using unsigned_less [of x] by simp
  then have "unat x < 2 ^ 64" by simp
  then show ?thesis by (simp add: unsigned_ucast_eq take_bit_nat_eq_self)
qed

lemma if_append: "(if c then s @ x else s) = s @ (if c then x else [])"
  by simp

lemma case_option_append:
  "(case r of None \<Rightarrow> s | Some v \<Rightarrow> s @ f v) = s @ (case r of None \<Rightarrow> [] | Some v \<Rightarrow> f v)"
  by (cases r) simp_all

lemma case_prod_append: "(case p of (a, b) \<Rightarrow> s @ f a b) = s @ (case p of (a, b) \<Rightarrow> f a b)"
  by (cases p) simp

lemma case_prod_range: "(case p of (a, b) \<Rightarrow> attr k (range_text (a, b))) = attr k (range_text p)"
  by (cases p) simp

lemma finish_line_eq:
  "finish_line gen s (Some x) = s @ x @ (if pretty gen then [CHR 0x0A] else [])"
  "finish_line gen s None = s @ (if pretty gen then [CHR 0x0A] else [])"
  by (simp_all add: finish_line_def)

lemma if_add_option:
  "(if c then add_option_int s k n else s) = s @ (if c then attr k (show_nat (unat n)) else [])"
  "(if c then add_option_string s k v else s) = s @ (if c then attr k v else [])"
  "(if c then add_option_int s k (ucast (w :: guint)) else s)
     = s @ (if c then attr k (show_nat (unat w)) else [])"
  by (simp_all add: add_option_eqs unat_ucast_guint)

lemma case_add_option_range:
  "(case r of None \<Rightarrow> s | Some (a, b) \<Rightarrow> add_option_range s k a b)
     = s @ (case r of None \<Rightarrow> [] | Some p \<Rightarrow> attr k (range_text p))"
  by (cases r) (auto simp: add_option_eqs)

lemmas emit_rules = if_add_option case_add_option_range add_line_no_newline_numerals add_option_eqs unat_ucast_guint finish_line_eq
  add_line_def if_append case_option_append case_prod_append case_prod_range

lemma add_representation_cb_eq:
  "add_representation_cb gen s a =
     s @ emit_lines (pretty gen) (unat (indent gen)) (representation_lines a)"
  by (cases "pretty gen"; cases "video_codec a"; cases "audio_codec a")
     (simp_all add: add_representation_cb_def representation_lines_def Let_def emit_rules
        gtuber_stream_get_codecs_def representation_tag_def segment_base_tag_def initialization_tag_def
        split del: if_split cong: if_cong)


lemma show_nat_1 [simp]: "show_nat (Suc 0) = ''1''"
  by (simp add: show_nat.simps)

lemma foldl_add_representation_cb:
  "foldl (add_representation_cb gen) s as =
     s @ emit_lines (pretty gen) (unat (indent gen)) (concat (map representation_lines as))"
  by (induction as arbitrary: s) (simp_all add: add_representation_cb_eq)

lemma add_adaptation_set_cb_eq:
  "add_adaptation_set_cb gen s d =
     s @ emit_lines (pretty gen) (unat (indent gen)) (adaptation_lines d)"
  by (cases "pretty gen"; cases "ad_mime_type d")
     (simp_all add: add_adaptation_set_cb_def parse_content_and_mime_type_def adaptation_lines_def
        recognized_mime_def is_video_def content_type_def container_def adaptation_tag_def
        Let_def emit_rules foldl_add_representation_cb split del: if_split)

lemma foldl_add_adaptation_set_cb:
  "foldl (add_adaptation_set_cb gen) s ds =
     s @ emit_lines (pretty gen) (unat (indent gen)) (concat (map adaptation_lines ds))"
  by (induction ds arbitrary: s) (simp_all add: add_adaptation_set_cb_eq)

lemma unat_buf_time: "unat (if 2 < d then 2 else d :: guint) = min 2 (unat d)"
  by (auto simp: word_less_nat_alt)

lemma dump_data_eq:
  "dump_data gen info s =
     (if sort_streams gen (info_adaptive_streams info) = [] then s
      else s @ emit_lines (pretty gen) (unat (indent gen))
                 (body_lines info (sort_streams gen (info_adaptive_streams info)))
             @ ''</MPD>'')"
  by (cases "pretty gen")
     (simp_all add: dump_data_def body_lines_def Let_def emit_rules foldl_add_adaptation_set_cb
        obtain_time_as_pts_def unat_buf_time xml_declaration_def mpd_tag_def attr_def
        split del: if_split
        cong: if_cong)

lemma sort_streams_cb_pretty [simp]:
  "sort_streams_cb (gen\<lparr>pretty := b\<rparr>) = sort_streams_cb gen"
  by (intro ext) (simp add: sort_streams_cb_def cong: option.case_cong)

lemma sort_streams_pretty [simp]: "sort_streams (gen\<lparr>pretty := b\<rparr>) xs = sort_streams gen xs"
  by (simp add: sort_streams_def)

lemma sort_streams_Nil_iff: "sort_streams gen xs = [] \<longleftrightarrow> qualifying gen xs = []"
proof -
  have "sort_streams gen xs = [] \<longleftrightarrow> map adaptation_key (sort_streams gen xs) = []" by simp
  also have "\<dots> \<longleftrightarrow> set (first_encounter (map stream_key (qualifying gen xs))) = {}"
    unfolding sort_streams_keys by (simp del: set_first_encounter)
  also have "\<dots> \<longleftrightarrow> qualifying gen xs = []" by simp
  finally show ?thesis .
qed

lemma emit_lines_True:
  "emit_lines True iw ls = concat (map (\<lambda>(d, t). indentation iw d @ t @ [CHR 0x0A]) ls)"
  by (simp add: emit_lines_def)

lemma emit_lines_False: "emit_lines False iw ls = concat (map snd ls)"
  by (induction ls) (auto simp: emit_lines_def)

lemma to_data_eq:
  "media_info gen = Some info \<Longrightarrow>
   gen_to_data_internal gen =
     Some (let doc = (if sort_streams gen (info_adaptive_streams info) = [] then []
                 else emit_lines (pretty gen) (unat (indent gen))
                        (body_lines info (sort_streams gen (info_adaptive_streams info)))
                      @ ''</MPD>'')
      in (doc, length doc))"
  by (simp add: gen_to_data_internal_def dump_data_eq Let_def)

lemma to_data_pretty:
  "media_info gen = Some info \<Longrightarrow> pretty gen \<Longrightarrow>
   gtuber_manifest_generator_to_data gen =
     Some (emit_pretty (unat (indent gen)) info (sort_streams gen (info_adaptive_streams info)))"
  by (simp add: gtuber_manifest_generator_to_data_def to_data_eq emit_pretty_def emit_lines_True Let_def)

lemma to_data_plain:
  "media_info gen = Some info \<Longrightarrow> \<not> pretty gen \<Longrightarrow>
   gtuber_manifest_generator_to_data gen =
     Some (emit_plain info (sort_streams gen (info_adaptive_streams info)))"
  by (simp add: gtuber_manifest_generator_to_data_def to_data_eq emit_plain_def emit_lines_False Let_def)

lemma digit_no_newline: "k < 10 \<Longrightarrow> ''0123456789'' ! k \<noteq> CHR 0x0A"
proof -
  assume "k < 10"
  then have "''0123456789'' ! k \<in> set ''0123456789''" by (intro nth_mem) simp
  then show ?thesis by auto
qed

lemma show_nat_no_newline: "CHR 0x0A \<notin> set (show_nat n)"
proof (induction n rule: show_nat.induct)
  case (1 n)
  show ?case
  proof (cases "n < 10")
    case True
    then show ?thesis using digit_no_newline [of n] by (simp add: show_nat.simps [of n])
  next
    case False
    then show ?thesis
      using 1 digit_no_newline [of "n mod 10"] by (simp add: show_nat.simps [of n])
  qed
qed

lemma show_int_no_newline: "CHR 0x0A \<notin> set (show_int i)"
  by (simp add: show_int_def show_nat_no_newline)

lemma par_no_newline: "CHR 0x0A \<notin> set (obtain_par_from_res w h)"
  by (simp add: obtain_par_from_res_def Let_def show_int_no_newline)

lemma attr_no_newline:
  "CHR 0x0A \<notin> set k \<Longrightarrow> CHR 0x0A \<notin> set v \<Longrightarrow> CHR 0x0A \<notin> set (attr k v)"
  by (simp add: attr_def)

lemma range_text_no_newline: "CHR 0x0A \<notin> set (range_text r)"
  by (simp add: range_text_def show_nat_no_newline)

lemma representation_lines_no_newline:
  assumes "newline_free a" "l \<in> set (representation_lines a)"
  shows "CHR 0x0A \<notin> set (snd l)"
proof -
  have tag: "CHR 0x0A \<notin> set (representation_tag a)"
    using assms(1)
    by (cases "video_codec a"; cases "audio_codec a")
       (simp_all add: representation_tag_def newline_free_def attr_no_newline show_nat_no_newline)
  have seg: "CHR 0x0A \<notin> set (segment_base_tag a)"
    by (cases "index_range a")
       (simp_all add: segment_base_tag_def attr_no_newline range_text_no_newline)
  have ini: "CHR 0x0A \<notin> set (initialization_tag a)"
    by (cases "init_range a")
       (simp_all add: initialization_tag_def attr_no_newline range_text_no_newline)
  have url: "CHR 0x0A \<notin> set (''<BaseURL>'' @ uri a @ ''</BaseURL>'')"
    using assms(1) by (simp add: newline_free_def)
  show ?thesis
    using assms(2) tag seg ini url unfolding representation_lines_def by auto
qed

lemma adaptation_tag_no_newline: "CHR 0x0A \<notin> set (adaptation_tag d)"
  by (simp add: adaptation_tag_def content_type_def container_def attr_no_newline
      show_nat_no_newline par_no_newline)

lemma adaptation_lines_no_newline:
  assumes "\<forall>a \<in> set (adaptive_streams d). newline_free a" "l \<in> set (adaptation_lines d)"
  shows "CHR 0x0A \<notin> set (snd l)"
  using assms adaptation_tag_no_newline [of d]
  by (auto simp: adaptation_lines_def dest: representation_lines_no_newline split: if_splits)

lemma mpd_tag_no_newline: "CHR 0x0A \<notin> set (mpd_tag info)"
  by (simp add: mpd_tag_def attr_no_newline show_nat_no_newline)

lemma body_lines_no_newline:
  assumes "\<forall>d \<in> set groups. \<forall>a \<in> set (adaptive_streams d). newline_free a"
    "l \<in> set (body_lines info groups)"
  shows "CHR 0x0A \<notin> set (snd l)"
  using assms mpd_tag_no_newline [of info]
  by (auto simp: body_lines_def xml_declaration_def dest: adaptation_lines_no_newline)

lemma sort_streams_members_subset:
  "d \<in> set (sort_streams gen xs) \<Longrightarrow> set (adaptive_streams d) \<subseteq> set xs"
  by (auto simp: sort_streams_members qualifying_def)

lemma emit_plain_no_newline:
  assumes "list_all newline_free xs"
  shows "CHR 0x0A \<notin> set (emit_plain info (sort_streams gen xs))"
proof -
  have "\<forall>d \<in> set (sort_streams gen xs). \<forall>a \<in> set (adaptive_streams d). newline_free a"
    using assms sort_streams_members_subset [of _ gen xs] by (auto simp: list_all_iff)
  then have "\<forall>l \<in> set (body_lines info (sort_streams gen xs)). CHR 0x0A \<notin> set (snd l)"
    using body_lines_no_newline by blast
  then show ?thesis by (auto simp: emit_plain_def)
qed

lemma indentation_no_wrap:
  "d * iw < 2 ^ 32 \<Longrightarrow> indentation iw d = replicate (d * iw) CHR '' ''"
  by (simp add: indentation_def)

text \<open>C2 (as amended): for every generator that holds a media info, the document in pretty
  mode is the lines of the body, each preceded by its indentation and ended by a newline,
  followed by the closing tag of the root element, and the document in plain mode is the
  texts of the same lines one after the other, with nothing added: the two modes differ in
  this white space only. The indentation of a line at depth \<open>d\<close> is \<open>d\<close> times the indent
  width in 32-bit unsigned arithmetic, which is exactly \<open>d\<close> times the indent width when 5
  times the indent width is below \<open>2 ^ 32\<close>. The plain document holds no newline when the
  URI and codec strings of the streams hold none.\<close>
theorem pretty_and_plain_documents:
  assumes "media_info gen = Some info"
  shows "gtuber_manifest_generator_to_data (gen\<lparr>pretty := True\<rparr>)
           = Some (emit_pretty (unat (indent gen)) info (sort_streams gen (info_adaptive_streams info)))
       \<and> gtuber_manifest_generator_to_data (gen\<lparr>pretty := False\<rparr>)
           = Some (emit_plain info (sort_streams gen (info_adaptive_streams info)))
       \<and> (list_all newline_free (info_adaptive_streams info) \<longrightarrow>
            CHR 0x0A \<notin> set (emit_plain info (sort_streams gen (info_adaptive_streams info))))
       \<and> (5 * unat (indent gen) < 2 ^ 32 \<longrightarrow>
            (\<forall>d \<le> 5. indentation (unat (indent gen)) d = replicate (d * unat (indent gen)) CHR '' ''))"
proof -
  have a: "gtuber_manifest_generator_to_data (gen\<lparr>pretty := True\<rparr>)
           = Some (emit_pretty (unat (indent gen)) info (sort_streams gen (info_adaptive_streams info)))"
    using to_data_pretty [of "gen\<lparr>pretty := True\<rparr>" info] assms by simp
  have b: "gtuber_manifest_generator_to_data (gen\<lparr>pretty := False\<rparr>)
           = Some (emit_plain info (sort_streams gen (info_adaptive_streams info)))"
    using to_data_plain [of "gen\<lparr>pretty := False\<rparr>" info] assms by simp
  have c: "5 * unat (indent gen) < 2 ^ 32 \<Longrightarrow> d \<le> 5 \<Longrightarrow>
           indentation (unat (indent gen)) d = replicate (d * unat (indent gen)) CHR '' ''" for d
  proof -
    assume h: "5 * unat (indent gen) < 2 ^ 32" "d \<le> 5"
    have "d * unat (indent gen) \<le> 5 * unat (indent gen)" using h(2) by (rule mult_le_mono1)
    then have "d * unat (indent gen) < 2 ^ 32" using h(1) by (rule le_less_trans)
    then show ?thesis by (rule indentation_no_wrap)
  qed
  show ?thesis using a b c emit_plain_no_newline by blast
qed

lemma to_data_None: "media_info gen = None \<Longrightarrow> gtuber_manifest_generator_to_data gen = None"
  by (simp add: gtuber_manifest_generator_to_data_def gen_to_data_internal_def)

lemma to_data_Some_info:
  "gtuber_manifest_generator_to_data gen = Some doc \<Longrightarrow> \<exists>info. media_info gen = Some info"
  by (cases "media_info gen") (simp_all add: to_data_None)

text \<open>C10: every non-empty document generated in pretty mode is the lines of the body,
  each indented and ended by a newline, followed by the closing tag of the root element
  with no line end after it: the document ends in \<open>>\<close>, not in a newline.\<close>
theorem pretty_document_no_trailing_newline:
  assumes "pretty gen" "gtuber_manifest_generator_to_data gen = Some doc" "doc \<noteq> []"
  shows "\<exists>info. media_info gen = Some info
           \<and> doc = concat (map (\<lambda>(d, t). indentation (unat (indent gen)) d @ t @ [CHR 0x0A])
                            (body_lines info (sort_streams gen (info_adaptive_streams info))))
                    @ ''</MPD>''
           \<and> last doc = CHR ''>'' \<and> last doc \<noteq> CHR 0x0A"
proof -
  obtain info where info: "media_info gen = Some info"
    using to_data_Some_info [OF assms(2)] by blast
  let ?groups = "sort_streams gen (info_adaptive_streams info)"
  have doc: "doc = emit_pretty (unat (indent gen)) info ?groups"
    using to_data_pretty [OF info assms(1)] assms(2) by simp
  then have "?groups \<noteq> []" using assms(3) by (auto simp: emit_pretty_def)
  then have "doc = concat (map (\<lambda>(d, t). indentation (unat (indent gen)) d @ t @ [CHR 0x0A])
                            (body_lines info ?groups)) @ ''</MPD>''"
    using doc by (simp add: emit_pretty_def)
  moreover from this have "last doc = CHR ''>''" by simp
  ultimately show ?thesis using info by auto
qed

text \<open>C6: for every media info with at least one qualifying stream and duration \<open>d\<close>, the
  document starts with the XML declaration and the opening tag of the root element, which
  carries \<open>mediaPresentationDuration="PTdS"\<close> and \<open>minBufferTime="PTmS"\<close> with \<open>m\<close> the
  smaller of 2 and \<open>d\<close>.\<close>
theorem mpd_duration_attributes:
  assumes "media_info gen = Some info" "qualifying gen (info_adaptive_streams info) \<noteq> []"
  shows \<open>\<exists>rest. gtuber_manifest_generator_to_data gen =
           Some (''<?xml version="1.0" encoding="UTF-8"?>'' @ (if pretty gen then [CHR 0x0A] else [])
                 @ ''<MPD xmlns:xsi="http://www.w3.org/2001/XMLSchema-instance"''
                 @ '' xmlns="urn:mpeg:dash:schema:mpd:2011"''
                 @ '' xsi:schemaLocation="urn:mpeg:dash:schema:mpd:2011 DASH-MPD.xsd"''
                 @ '' type="static"''
                 @ '' mediaPresentationDuration="PT'' @ show_nat (unat (duration info)) @ ''S"''
                 @ '' minBufferTime="PT'' @ show_nat (min 2 (unat (duration info))) @ ''S"''
                 @ '' profiles="urn:mpeg:dash:profile:isoff-on-demand:2011">'' @ rest)\<close>
proof -
  have ne: "sort_streams gen (info_adaptive_streams info) \<noteq> []"
    using assms(2) by (simp add: sort_streams_Nil_iff)
  show ?thesis
    by (cases "pretty gen")
       (simp_all add: gtuber_manifest_generator_to_data_def to_data_eq [OF assms(1)] ne Let_def
          body_lines_def xml_declaration_def mpd_tag_def attr_def)
qed

lemma tmp_name_neq: "tmp_name env path \<noteq> path"
  by (simp add: tmp_name_def)

text \<open>C7: when no stream of the media info qualifies, generation is not an error: the
  text buffer is the empty string with length 0, and file generation hands this empty text
  to the file system call, which, when neither of its steps fails, succeeds and leaves a
  file of length zero at the path and no temporary file.\<close>
theorem no_qualifying_stream_empty_output:
  assumes "media_info gen = Some info" "qualifying gen (info_adaptive_streams info) = []"
    and "write_errno env = None" "rename_errno env = None"
  shows "gen_to_data_internal gen = Some ([], 0)
       \<and> gtuber_manifest_generator_to_data gen = Some []
       \<and> gtuber_manifest_generator_to_file (g_file_set_contents env) len0 gen (Some path) files
           = (True, None, (files(path \<mapsto> []))(tmp_name env path := None))"
proof -
  have e: "sort_streams gen (info_adaptive_streams info) = []"
    using assms(2) by (simp add: sort_streams_Nil_iff)
  have a: "gen_to_data_internal gen = Some ([], 0)"
    by (simp add: to_data_eq [OF assms(1)] e)
  have "(files(tmp_name env path \<mapsto> [], path \<mapsto> []))(tmp_name env path := None)
        = (files(path \<mapsto> []))(tmp_name env path := None)"
    using tmp_name_neq [of env path] by (auto simp: fun_eq_iff)
  then show ?thesis
    using a assms(3,4)
    by (simp add: gtuber_manifest_generator_to_data_def gtuber_manifest_generator_to_file_def
        g_file_set_contents_def Let_def)
qed

text \<open>C3: generation before a media info has been set. Generation to a text buffer returns
  \<^verbatim>\<open>NULL\<close>. Generation to a file does not fail by itself: it passes \<^verbatim>\<open>NULL\<close> and the
  uninitialised length to \<^verbatim>\<open>g_file_set_contents\<close> and returns what that returns; when the
  length happens to be 0 the call succeeds and the target file is replaced by an empty
  one.\<close>
theorem unset_media_info_to_file:
  "gtuber_manifest_generator_to_data (gen\<lparr>media_info := None\<rparr>) = None
   \<and> gtuber_manifest_generator_to_file set_contents len0 (gen\<lparr>media_info := None\<rparr>) (Some path) fs
       = set_contents path None len0 fs
   \<and> gtuber_manifest_generator_to_file
        (g_file_set_contents \<lparr>write_errno = None, rename_errno = None, tmp_suffix = ''XXXXXX''\<rparr>) 0
        gtuber_manifest_generator_init (Some ''out.mpd'') [''out.mpd'' \<mapsto> ''old'']
       = (True, None, [''out.mpd'' \<mapsto> ''''])"
  by (auto simp: to_data_None gtuber_manifest_generator_to_file_def gen_to_data_internal_def
      g_file_set_contents_def gtuber_manifest_generator_init_def tmp_name_def Let_def fun_eq_iff)

text \<open>C8: for every generated text and target path, file generation succeeds exactly when
  neither the write of the temporary file nor the rename fails; on success the target
  holds the text and no temporary file is left; on failure the target is as it was before
  (content or absence) and the error of the failing step is returned to the caller.\<close>
theorem to_file_atomic_write:
  assumes "gen_to_data_internal gen = Some (text, n)"
    and "gtuber_manifest_generator_to_file (g_file_set_contents env) len0 gen (Some path) files
           = (ok, err, files')"
  shows "(ok \<longleftrightarrow> write_errno env = None \<and> rename_errno env = None)
       \<and> (ok \<longrightarrow> err = None \<and> files' path = Some text \<and> files' (tmp_name env path) = None)
       \<and> (\<not> ok \<longrightarrow> files' path = files path
              \<and> (\<exists>e. err = Some (G_FILE_ERROR e)
                     \<and> (write_errno env = Some e
                          \<or> write_errno env = None \<and> rename_errno env = Some e)))"
proof -
  have n: "n = length text"
    using assms(1) by (auto simp: gen_to_data_internal_def Let_def split: option.splits)
  show ?thesis
    using assms n tmp_name_neq [of env path]
    by (cases "write_errno env"; cases "rename_errno env")
       (auto simp: gtuber_manifest_generator_to_file_def g_file_set_contents_def Let_def)
qed

lemma replicate_numeral: "replicate (numeral v) x = x # replicate (numeral v - 1) x"
  by (simp add: numeral_eq_Suc)

lemmas document_defs = replicate_numeral
  emit_pretty_def emit_plain_def body_lines_def adaptation_lines_def representation_lines_def
  adaptation_tag_def representation_tag_def segment_base_tag_def initialization_tag_def
  mpd_tag_def xml_declaration_def attr_def range_text_def content_type_def container_def
  recognized_mime_def is_video_def indentation_def show_nat.simps obtain_par_from_res_def
  get_gcd.simps show_int_def

lemma example_media_info: "media_info example_generator = Some example_info"
  by (simp add: example_generator_def)

lemma example_pretty: "pretty example_generator" "indent example_generator = 4"
  by (simp_all add: example_generator_def)

lemma example_groups:
  "sort_streams example_generator (info_adaptive_streams example_info) =
     [\<lparr>ad_mime_type = GTUBER_STREAM_MIME_TYPE_VIDEO_MP4, dash_codec = DASH_CODEC_AVC,
       max_width = 1280, max_height = 720, max_fps = 30,
       adaptive_streams = [example_video_720, example_video_360]\<rparr>,
      \<lparr>ad_mime_type = GTUBER_STREAM_MIME_TYPE_AUDIO_MP4, dash_codec = DASH_CODEC_MP4A,
       max_width = 0, max_height = 0, max_fps = 0,
       adaptive_streams = [example_audio]\<rparr>]"
  by (simp add: grouping_defs example_defs example_info_def example_generator_def)

lemma example_emit_pretty:
  "emit_pretty 4 example_info (sort_streams example_generator (info_adaptive_streams example_info))
     = example_document"
  unfolding example_groups
  by (simp add: document_defs example_defs example_info_def example_document_def)

lemma example_emit_plain:
  "emit_plain example_info (sort_streams example_generator (info_adaptive_streams example_info))
     = example_document_plain"
  unfolding example_groups
  by (simp add: document_defs example_defs example_info_def example_document_plain_def)

lemma example_to_data:
  "gtuber_manifest_generator_to_data example_generator = Some example_document"
  using to_data_pretty [OF example_media_info example_pretty(1)]
  by (simp add: example_pretty(2) example_emit_pretty)

lemma example_gen_to_data_internal:
  "gen_to_data_internal example_generator = Some (example_document, length example_document)"
proof -
  obtain n where n: "gen_to_data_internal example_generator = Some (example_document, n)"
    using example_to_data by (auto simp: gtuber_manifest_generator_to_data_def)
  then have "n = length example_document"
    by (auto simp: gen_to_data_internal_def Let_def split: option.splits)
  then show ?thesis using n by simp
qed

lemma example_document_nonempty: "example_document \<noteq> []"
  by (simp add: example_document_def)

theorem pretty_and_plain_documents_witness:
  "media_info example_generator = Some example_info
   \<and> gtuber_manifest_generator_to_data (example_generator\<lparr>pretty := True\<rparr>) = Some example_document
   \<and> gtuber_manifest_generator_to_data (example_generator\<lparr>pretty := False\<rparr>)
       = Some example_document_plain
   \<and> CHR 0x0A \<notin> set example_document_plain"
proof -
  have n: "list_all newline_free (info_adaptive_streams example_info)"
    by (simp add: example_info_def example_defs newline_free_def)
  show ?thesis
    using pretty_and_plain_documents [OF example_media_info] n
    by (simp add: example_media_info example_pretty(2) example_emit_pretty example_emit_plain)
qed

theorem pretty_document_no_trailing_newline_witness:
  "pretty example_generator
   \<and> gtuber_manifest_generator_to_data example_generator = Some example_document
   \<and> example_document \<noteq> []
   \<and> last example_document = CHR ''>'' \<and> last example_document \<noteq> CHR 0x0A"
  using pretty_document_no_trailing_newline
    [OF example_pretty(1) example_to_data example_document_nonempty]
  by (auto simp: example_pretty(1) example_to_data example_document_nonempty)


theorem mpd_duration_attributes_witness:
  \<open>(\<exists>rest. gtuber_manifest_generator_to_data example_generator =
       Some (''<?xml version="1.0" encoding="UTF-8"?>'' @ [CHR 0x0A]
             @ ''<MPD xmlns:xsi="http://www.w3.org/2001/XMLSchema-instance"''
             @ '' xmlns="urn:mpeg:dash:schema:mpd:2011"''
             @ '' xsi:schemaLocation="urn:mpeg:dash:schema:mpd:2011 DASH-MPD.xsd"''
             @ '' type="static" mediaPresentationDuration="PT125S" minBufferTime="PT2S"''
             @ '' profiles="urn:mpeg:dash:profile:isoff-on-demand:2011">'' @ rest))
   \<and> (\<exists>rest. gtuber_manifest_generator_to_data
               (gtuber_manifest_generator_init
                  \<lparr>media_info := Some \<lparr>duration = 1, info_adaptive_streams = [example_audio]\<rparr>\<rparr>) =
       Some (''<?xml version="1.0" encoding="UTF-8"?>''
             @ ''<MPD xmlns:xsi="http://www.w3.org/2001/XMLSchema-instance"''
             @ '' xmlns="urn:mpeg:dash:schema:mpd:2011"''
             @ '' xsi:schemaLocation="urn:mpeg:dash:schema:mpd:2011 DASH-MPD.xsd"''
             @ '' type="static" mediaPresentationDuration="PT1S" minBufferTime="PT1S"''
             @ '' profiles="urn:mpeg:dash:profile:isoff-on-demand:2011">'' @ rest))\<close>
proof -
  have q: "qualifying example_generator (info_adaptive_streams example_info) \<noteq> []"
    by (simp add: grouped_defs example_defs example_info_def example_generator_def)
  let ?g = "gtuber_manifest_generator_init
              \<lparr>media_info := Some \<lparr>duration = 1, info_adaptive_streams = [example_audio]\<rparr>\<rparr>"
  let ?i = "\<lparr>duration = 1, info_adaptive_streams = [example_audio]\<rparr>"
  have m: "media_info ?g = Some ?i" by simp
  have q1: "qualifying ?g (info_adaptive_streams ?i) \<noteq> []"
    by (simp add: grouped_defs example_defs)
  show ?thesis
    using mpd_duration_attributes [OF example_media_info q] mpd_duration_attributes [OF m q1]
    by (simp add: example_pretty(1) example_info_def show_nat.simps
        gtuber_manifest_generator_init_def)
qed

theorem no_qualifying_stream_empty_output_witness:
  "gtuber_manifest_generator_to_data
     (gtuber_manifest_generator_init
        \<lparr>media_info := Some example_info, filter_func := Some (\<lambda>s u. False)\<rparr>) = Some []
   \<and> gtuber_manifest_generator_to_file (g_file_set_contents io_ok) 0
       (gtuber_manifest_generator_init
          \<lparr>media_info := Some example_info, filter_func := Some (\<lambda>s u. False)\<rparr>)
       (Some ''out.mpd'') Map.empty
     = (True, None, [''out.mpd'' \<mapsto> []])
   \<and> gtuber_manifest_generator_to_data
       (gtuber_manifest_generator_init
          \<lparr>media_info := Some \<lparr>duration = 125, info_adaptive_streams = []\<rparr>\<rparr>) = Some []"
proof -
  let ?g = "gtuber_manifest_generator_init
              \<lparr>media_info := Some example_info, filter_func := Some (\<lambda>s u. False)\<rparr>"
  have m: "media_info ?g = Some example_info" by simp
  have q: "qualifying ?g (info_adaptive_streams example_info) = []"
    by (simp add: qualifying_def excluded_def filter_rejects_def example_info_def)
  have w: "write_errno io_ok = None" and r: "rename_errno io_ok = None"
    by (simp_all add: io_ok_def)
  let ?h = "gtuber_manifest_generator_init
              \<lparr>media_info := Some \<lparr>duration = 125, info_adaptive_streams = []\<rparr>\<rparr>"
  have m': "media_info ?h = Some \<lparr>duration = 125, info_adaptive_streams = []\<rparr>" by simp
  have q': "qualifying ?h (info_adaptive_streams \<lparr>duration = 125, info_adaptive_streams = []\<rparr>) = []"
    by (simp add: qualifying_def)
  have t: "(Map.empty(''out.mpd'' \<mapsto> []))(tmp_name io_ok ''out.mpd'' := None) = [''out.mpd'' \<mapsto> []]"
    by (auto simp: fun_eq_iff tmp_name_def io_ok_def)
  show ?thesis
    using no_qualifying_stream_empty_output [OF m q w r, of 0 "''out.mpd''" Map.empty]
      no_qualifying_stream_empty_output [OF m' q' w r]
    by (simp add: t)
qed

theorem to_file_atomic_write_witness:
  "gen_to_data_internal example_generator = Some (example_document, length example_document)
   \<and> gtuber_manifest_generator_to_file (g_file_set_contents io_rename_fails) 0 example_generator
       (Some ''out.mpd'') [''out.mpd'' \<mapsto> ''old'']
     = (False, Some (G_FILE_ERROR 13), [''out.mpd'' \<mapsto> ''old''])
   \<and> rename_errno io_rename_fails = Some 13
   \<and> gtuber_manifest_generator_to_file (g_file_set_contents io_ok) 0 example_generator
       (Some ''out.mpd'') [''out.mpd'' \<mapsto> ''old'']
     = (True, None, [''out.mpd'' \<mapsto> example_document])"
proof -
  note d = example_gen_to_data_internal
  have f: "gtuber_manifest_generator_to_file (g_file_set_contents io_rename_fails) 0 example_generator
       (Some ''out.mpd'') [''out.mpd'' \<mapsto> ''old'']
     = (False, Some (G_FILE_ERROR 13), [''out.mpd'' \<mapsto> ''old''])"
    by (auto simp: gtuber_manifest_generator_to_file_def d g_file_set_contents_def Let_def
        io_rename_fails_def tmp_name_def fun_eq_iff)
  have s: "gtuber_manifest_generator_to_file (g_file_set_contents io_ok) 0 example_generator
       (Some ''out.mpd'') [''out.mpd'' \<mapsto> ''old'']
     = (True, None, [''out.mpd'' \<mapsto> example_document])"
    by (auto simp: gtuber_manifest_generator_to_file_def d g_file_set_contents_def Let_def
        io_ok_def tmp_name_def fun_eq_iff)
  show ?thesis
    using to_file_atomic_write [OF d f] to_file_atomic_write [OF d s] d f s
    by (simp add: io_rename_fails_def)
qed

theorem plain_document_newline_counterexample:
  \<open>gtuber_manifest_generator_to_data
       (gtuber_manifest_generator_init
          \<lparr>media_info := Some \<lparr>duration = 125,
             info_adaptive_streams = [example_audio\<lparr>uri := ''a'' @ [CHR 0x0A] @ ''b''\<rparr>]\<rparr>\<rparr>)
     = Some (''<?xml version="1.0" encoding="UTF-8"?>''
     @ ''<MPD xmlns:xsi="http://www.w3.org/2001/XMLSchema-instance" xmlns="urn:mpeg:dash:schema:mpd:2011" xsi:schemaLocation="urn:mpeg:dash:schema:mpd:2011 DASH-MPD.xsd" type="static" mediaPresentationDuration="PT125S" minBufferTime="PT2S" profiles="urn:mpeg:dash:profile:isoff-on-demand:2011">''
     @ ''<Period>''
     @ ''<AdaptationSet contentType="audio" mimeType="audio/mp4" subsegmentAlignment="true" subsegmentStartsWithSAP="1">''
     @ ''<Representation id="140" codecs="mp4a.40.2" bandwidth="128000">''
     @ ''<BaseURL>a'' @ [CHR 0x0A]
     @ ''b</BaseURL>''
     @ ''<SegmentBase indexRangeExact="true">''
     @ ''<Initialization/>''
     @ ''</SegmentBase>''
     @ ''</Representation>''
     @ ''</AdaptationSet>''
     @ ''</Period>''
     @ ''</MPD>'')
   \<and> \<not> pretty (gtuber_manifest_generator_init
          \<lparr>media_info := Some \<lparr>duration = 125,
             info_adaptive_streams = [example_audio\<lparr>uri := ''a'' @ [CHR 0x0A] @ ''b''\<rparr>]\<rparr>\<rparr>)
   \<and> (case gtuber_manifest_generator_to_data
               (gtuber_manifest_generator_init
                  \<lparr>media_info := Some \<lparr>duration = 125,
                     info_adaptive_streams = [example_audio\<lparr>uri := ''a'' @ [CHR 0x0A] @ ''b''\<rparr>]\<rparr>\<rparr>)
         of Some doc \<Rightarrow> CHR 0x0A \<in> set doc | None \<Rightarrow> False)
   \<and> add_line_no_newline (gtuber_manifest_generator_init\<lparr>pretty := True, indent := 2147483648\<rparr>)
        [] 2 ''<AdaptationSet'' = ''<AdaptationSet''\<close>
proof -
  let ?i = "\<lparr>duration = 125,
             info_adaptive_streams = [example_audio\<lparr>uri := ''a'' @ [CHR 0x0A] @ ''b''\<rparr>]\<rparr>"
  let ?g = "gtuber_manifest_generator_init\<lparr>media_info := Some ?i\<rparr>"
  have m: "media_info ?g = Some ?i" by simp
  have p: "\<not> pretty ?g" by (simp add: gtuber_manifest_generator_init_def)
  have g: "sort_streams ?g (info_adaptive_streams ?i) =
     [\<lparr>ad_mime_type = GTUBER_STREAM_MIME_TYPE_AUDIO_MP4, dash_codec = DASH_CODEC_MP4A,
       max_width = 0, max_height = 0, max_fps = 0,
       adaptive_streams = [example_audio\<lparr>uri := ''a'' @ [CHR 0x0A] @ ''b''\<rparr>]\<rparr>]"
    by (simp add: grouping_defs example_defs)
  have a: "add_line_no_newline (gtuber_manifest_generator_init\<lparr>pretty := True, indent := 2147483648\<rparr>)
        [] 2 ''<AdaptationSet'' = ''<AdaptationSet''"
    by (simp add: add_line_no_newline_def)
  show ?thesis
    using to_data_plain [OF m p] p a unfolding g
    by (simp add: document_defs example_defs)
qed

end
